theory Spec2Isabelle
  imports Main "HOL-Library.Sublist"
begin

section \<open>Python strings\<close>

text \<open>
  Strings are lists of characters. The helpers below are the \<^verbatim>\<open>str\<close> methods
  that \<^verbatim>\<open>scripts/configure.py\<close> and \<^verbatim>\<open>scripts/build.py\<close> call, on
  characters below 256; case mapping is the ASCII one.
\<close>

definition is_space :: "char \<Rightarrow> bool" where
  "is_space c \<longleftrightarrow> c \<in> set [CHR 0x09, CHR 0x0A, CHR 0x0B, CHR 0x0C, CHR 0x0D,
     CHR 0x1C, CHR 0x1D, CHR 0x1E, CHR 0x1F, CHR 0x20, CHR 0x85, CHR 0xA0]"

definition str_strip :: "string \<Rightarrow> string" where
  "str_strip s = rev (dropWhile is_space (rev (dropWhile is_space s)))"

definition lower_char :: "char \<Rightarrow> char" where
  "lower_char c =
     (case map_of (zip ''ABCDEFGHIJKLMNOPQRSTUVWXYZ'' ''abcdefghijklmnopqrstuvwxyz'') c of
        Some d \<Rightarrow> d
      | None \<Rightarrow> c)"

definition str_lower :: "string \<Rightarrow> string" where
  "str_lower s = map lower_char s"

definition upper_char :: "char \<Rightarrow> char" where
  "upper_char c =
     (case map_of (zip ''abcdefghijklmnopqrstuvwxyz'' ''ABCDEFGHIJKLMNOPQRSTUVWXYZ'') c of
        Some d \<Rightarrow> d
      | None \<Rightarrow> c)"

definition str_upper :: "string \<Rightarrow> string" where
  "str_upper s = map upper_char s"

text \<open>\<^verbatim>\<open>x in s\<close> on strings: \<open>x\<close> occurs in \<open>s\<close> as a substring.\<close>

fun str_in :: "string \<Rightarrow> string \<Rightarrow> bool" where
  "str_in x [] = (x = [])"
| "str_in x (c # cs) = (prefix x (c # cs) \<or> str_in x cs)"

text \<open>
  \<^verbatim>\<open>s.partition(sep)\<close> for a one-character separator: the text before the first
  separator and the text after it (both parts of \<^verbatim>\<open>s.split(sep, 1)\<close> when the
  separator occurs).
\<close>

definition str_partition :: "char \<Rightarrow> string \<Rightarrow> string \<times> string" where
  "str_partition sep s =
     (takeWhile (\<lambda>c. c \<noteq> sep) s, drop 1 (dropWhile (\<lambda>c. c \<noteq> sep) s))"

text \<open>
  Splitting a text into lines. \<open>brk\<close> says which characters end a line; a carriage
  return directly followed by a line feed ends one line, not two. The flag remembers
  that the previous character was a carriage return.
\<close>

fun split_lines :: "(char \<Rightarrow> bool) \<Rightarrow> bool \<Rightarrow> string \<Rightarrow> string \<Rightarrow> string list" where
  "split_lines brk cr acc [] = (if acc = [] then [] else [rev acc])"
| "split_lines brk cr acc (c # cs) =
     (if cr \<and> c = CHR 0x0A then split_lines brk False acc cs
      else if c = CHR 0x0D then rev acc # split_lines brk True [] cs
      else if brk c then rev acc # split_lines brk False [] cs
      else split_lines brk False (c # acc) cs)"

text \<open>\<^verbatim>\<open>str.splitlines()\<close>.\<close>

definition splitlines :: "string \<Rightarrow> string list" where
  "splitlines s =
     split_lines (\<lambda>c. c \<in> set [CHR 0x0A, CHR 0x0B, CHR 0x0C, CHR 0x1C, CHR 0x1D, CHR 0x1E, CHR 0x85])
       False [] s"

text \<open>Iterating over a text file opened with universal newlines.\<close>

definition file_lines :: "string \<Rightarrow> string list" where
  "file_lines s = split_lines (\<lambda>c. c = CHR 0x0A) False [] s"

text \<open>
  \<^verbatim>\<open>int(s)\<close>: surrounding white space, an optional sign, then decimal digits, where
  single underscores may stand between digits. \<open>None\<close> is \<^verbatim>\<open>ValueError\<close>.
\<close>

definition digit_val :: "char \<Rightarrow> int option" where
  "digit_val c = map_of (zip ''0123456789'' [0, 1, 2, 3, 4, 5, 6, 7, 8, 9]) c"

fun digits_ok :: "bool \<Rightarrow> string \<Rightarrow> bool" where
  "digits_ok after_digit [] = after_digit"
| "digits_ok after_digit (c # cs) =
     (if c = CHR ''_'' then after_digit \<and> digits_ok False cs
      else digit_val c \<noteq> None \<and> digits_ok True cs)"

definition digits_int :: "string \<Rightarrow> int" where
  "digits_int s = foldl (\<lambda>n c. case digit_val c of Some d \<Rightarrow> 10 * n + d | None \<Rightarrow> n) 0 s"

definition python_int :: "string \<Rightarrow> int option" where
  "python_int s =
     (let t = str_strip s;
          neg = (t \<noteq> [] \<and> hd t = CHR ''-'');
          body = (if t \<noteq> [] \<and> (hd t = CHR ''-'' \<or> hd t = CHR ''+'') then tl t else t)
      in if digits_ok False body
         then Some (if neg then - digits_int body else digits_int body)
         else None)"

text \<open>Truth value of an \<^verbatim>\<open>Optional[str]\<close>: neither \<^verbatim>\<open>None\<close> nor empty.\<close>

definition truthy :: "string option \<Rightarrow> bool" where
  "truthy x \<longleftrightarrow> x \<noteq> None \<and> x \<noteq> Some []"

section \<open>Paths and the file system\<close>

text \<open>
  A path is the list of its components; \<^verbatim>\<open>p / name\<close> appends one component,
  \<^verbatim>\<open>p.parent\<close> drops the last and \<^verbatim>\<open>p.name\<close> is the last. \<open>Path_of\<close> reads a
  path from a string as \<^verbatim>\<open>pathlib\<close> does: components are separated by a slash, on
  Windows also by a backslash, and empty and \<^verbatim>\<open>.\<close> components are dropped.
\<close>

type_synonym path = "string list"

fun split_on :: "(char \<Rightarrow> bool) \<Rightarrow> string \<Rightarrow> string \<Rightarrow> string list" where
  "split_on sep acc [] = [rev acc]"
| "split_on sep acc (c # cs) =
     (if sep c then rev acc # split_on sep [] cs else split_on sep (c # acc) cs)"

definition Path_of :: "bool \<Rightarrow> string \<Rightarrow> path" where
  "Path_of windows s =
     filter (\<lambda>p. p \<noteq> [] \<and> p \<noteq> ''.'')
       (split_on (\<lambda>c. c = CHR ''/'' \<or> (windows \<and> c = CHR 0x5C)) [] s)"

definition path_name :: "path \<Rightarrow> string" where
  "path_name p = (if p = [] then [] else last p)"

definition path_parent :: "path \<Rightarrow> path" where
  "path_parent p = butlast p"

fun join_with :: "string \<Rightarrow> string list \<Rightarrow> string" where
  "join_with sep [] = []"
| "join_with sep [x] = x"
| "join_with sep (x # y # ys) = x @ sep @ join_with sep (y # ys)"

text \<open>\<^verbatim>\<open>str(path)\<close>, written with forward slashes.\<close>

definition path_str :: "path \<Rightarrow> string" where
  "path_str p = join_with ''/'' p"

text \<open>
  The file system is a list of entries in the order in which a directory listing yields
  them. A file carries its text and its modification time.
\<close>

datatype node = Dir | File string nat

type_synonym filesystem = "(path \<times> node) list"

definition path_exists :: "filesystem \<Rightarrow> path \<Rightarrow> bool" where
  "path_exists fsys p \<longleftrightarrow> p = [] \<or> map_of fsys p \<noteq> None"

definition is_dir :: "filesystem \<Rightarrow> path \<Rightarrow> bool" where
  "is_dir fsys p \<longleftrightarrow> p = [] \<or> map_of fsys p = Some Dir"

definition is_file :: "filesystem \<Rightarrow> path \<Rightarrow> bool" where
  "is_file fsys p \<longleftrightarrow> (case map_of fsys p of Some (File _ _) \<Rightarrow> p \<noteq> [] | _ \<Rightarrow> False)"

definition iterdir :: "filesystem \<Rightarrow> path \<Rightarrow> path list" where
  "iterdir fsys p = remdups (filter (\<lambda>q. q \<noteq> [] \<and> butlast q = p) (map fst fsys))"

definition mtime :: "filesystem \<Rightarrow> path \<Rightarrow> nat" where
  "mtime fsys p = (case map_of fsys p of Some (File _ t) \<Rightarrow> t | _ \<Rightarrow> 0)"

text \<open>Exceptions that leave a function of the scripts.\<close>

datatype exn = KeyboardInterrupt | EOFError | KeyError | ValueError | TypeError | OSError

text \<open>
  \<^verbatim>\<open>p.mkdir(parents=True, exist_ok=True)\<close>: every missing directory on the way is
  created; a file in the way raises.
\<close>

definition mkdir_parents :: "filesystem \<Rightarrow> path \<Rightarrow> exn + filesystem" where
  "mkdir_parents fsys p =
     (if list_ex (is_file fsys) (prefixes p) then Inl OSError
      else Inr (fsys @ map (\<lambda>q. (q, Dir)) (filter (\<lambda>q. \<not> path_exists fsys q) (prefixes p))))"

text \<open>\<^verbatim>\<open>shutil.rmtree(p)\<close>.\<close>

definition rmtree :: "filesystem \<Rightarrow> path \<Rightarrow> filesystem" where
  "rmtree fsys p = filter (\<lambda>e. \<not> prefix p (fst e)) fsys"

section \<open>The process environment\<close>

type_synonym env = "string \<rightharpoonup> string"

definition env_get :: "env \<Rightarrow> string \<Rightarrow> string \<Rightarrow> string" where
  "env_get e k d = (case e k of Some v \<Rightarrow> v | None \<Rightarrow> d)"

text \<open>
  The loop that imports the output of \<^verbatim>\<open>script && set\<close> into a dictionary that
  is a copy of the environment (\<^verbatim>\<open>configure.py\<close> lines 1419 to 1422,
  \<^verbatim>\<open>build.py\<close> lines 479 to 482 and 519 to 522): every line that contains an equals
  sign assigns the text after the first equals sign to the name before it, as it is
  written.
\<close>

definition import_line :: "env \<Rightarrow> string \<Rightarrow> env" where
  "import_line e line =
     (if CHR ''='' \<in> set line
      then e(fst (str_partition (CHR ''='') line) \<mapsto> snd (str_partition (CHR ''='') line))
      else e)"

definition import_environment :: "string \<Rightarrow> env \<Rightarrow> env" where
  "import_environment out e = foldl import_line e (splitlines out)"

text \<open>
  \<^verbatim>\<open>os.environ\<close> itself is not a plain dictionary. The scripts read and write it
  by name on Windows only, where it keeps every name in upper case
  (\<^verbatim>\<open>encodekey\<close> of \<^verbatim>\<open>os.py\<close>): a name is put in upper case before it is looked
  up or assigned, and assigning to the empty name raises \<^verbatim>\<open>ValueError\<close>. The limit
  on the length of a variable and the ban on NUL characters are left out.
\<close>

definition encodekey :: "string \<Rightarrow> string" where
  "encodekey key = str_upper key"

definition environ_get :: "env \<Rightarrow> string \<Rightarrow> string \<Rightarrow> string" where
  "environ_get e key d = env_get e (encodekey key) d"

definition environ_setitem :: "env \<Rightarrow> string \<Rightarrow> string \<Rightarrow> exn + env" where
  "environ_setitem e key v = (if key = [] then Inl ValueError else Inr (e(encodekey key \<mapsto> v)))"

text \<open>
  The same loop on \<^verbatim>\<open>os.environ\<close> (\<^verbatim>\<open>configure.py\<close> lines 530 to 534). The
  exception leaves the loop at the offending line, with the earlier lines imported.
\<close>

fun import_environ_lines :: "string list \<Rightarrow> env \<Rightarrow> (exn + unit) \<times> env" where
  "import_environ_lines [] e = (Inr (), e)"
| "import_environ_lines (line # ls) e =
     (if CHR ''='' \<in> set line
      then (case environ_setitem e (fst (str_partition (CHR ''='') line))
                   (snd (str_partition (CHR ''='') line)) of
              Inl x \<Rightarrow> (Inl x, e)
            | Inr e1 \<Rightarrow> import_environ_lines ls e1)
      else import_environ_lines ls e)"

definition import_environ :: "string \<Rightarrow> env \<Rightarrow> (exn + unit) \<times> env" where
  "import_environ out e = import_environ_lines (splitlines out) e"

section \<open>The host and the state of a run\<close>

text \<open>
  What a run reads from its host and cannot compute: the platform, where the scripts
  live, which commands \<^verbatim>\<open>shutil.which\<close> resolves under a given environment and
  file system, what \<^verbatim>\<open>shlex.split\<close> returns (\<open>None\<close>: \<^verbatim>\<open>ValueError\<close>),
  and the tools started with \<^verbatim>\<open>subprocess.run\<close>. Each tool is started with its
  command line, the environment it inherits and the file system it sees.
  \<open>h_capture\<close> stands for the runs that capture their output (\<^verbatim>\<open>vswhere\<close> and
  the environment scripts): they return the exit status, standard output and standard
  error. \<open>h_run\<close> stands for the other runs (the dependency installer, CMake, the
  sibling scripts): they return the exit status and the file system they leave behind.
  Every tool is taken to start and to exit with a status.
\<close>

record host =
  h_system :: string
  h_script_dir :: path
  h_executable :: string
  h_which :: "env \<Rightarrow> filesystem \<Rightarrow> string \<Rightarrow> bool"
  h_shlex_split :: "string \<Rightarrow> string list option"
  h_capture :: "string list \<Rightarrow> env \<Rightarrow> filesystem \<Rightarrow> int \<times> string \<times> string"
  h_run :: "string list \<Rightarrow> env \<Rightarrow> filesystem \<Rightarrow> int \<times> filesystem"

text \<open>
  What arrives at a prompt: a line of text, or an interrupt from the keyboard. An
  exhausted input is the end of file.
\<close>

datatype input_event = Line string | CtrlC

text \<open>The tools a run starts; the log of a run records each start with its exit status.\<close>

datatype proc =
  Vswhere | EnvScript | InstallDeps | CMakeConfigure | CMakeBuild
  | ConfigureScript | FormatScript | LintScript

text \<open>
  The mutable state of the process: \<^verbatim>\<open>os.environ\<close>, the file system, the
  pending input, and the log of started tools (kept for the statements; no function
  reads it).
\<close>

record world =
  environ :: env
  fs :: filesystem
  stdin :: "input_event list"
  spawned :: "(proc \<times> int) list"

text \<open>
  \<^verbatim>\<open>class BuildConfig\<close> (\<^verbatim>\<open>configure.py\<close> lines 193 to 248), held together with
  the state of the process that mutates it.
\<close>

record build_config = world +
  script_dir :: path
  project_root :: path
  build_type :: "string option"
  compiler :: "string option"
  cxx_compiler :: "string option"
  build_system :: "string option"
  vs_version :: "string option"
  core_only :: "bool option"
  build_tests :: "bool option"
  build_examples :: "bool option"
  clean_build :: bool
  conan_toolchain :: "path option"
  use_conan :: "bool option"
  interactive :: bool
  cmake_args :: string
  is_windows :: bool
  is_linux :: bool
  is_macos :: bool

definition BuildConfig_init :: "host \<Rightarrow> world \<Rightarrow> build_config" where
  "BuildConfig_init h w =
     \<lparr>environ = environ w, fs = fs w, stdin = stdin w, spawned = spawned w,
      script_dir = h_script_dir h, project_root = path_parent (h_script_dir h),
      build_type = None, compiler = None, cxx_compiler = None, build_system = None,
      vs_version = None, core_only = None, build_tests = None, build_examples = None,
      clean_build = False, conan_toolchain = None, use_conan = None, interactive = True,
      cmake_args = [],
      is_windows = (h_system h = ''Windows''), is_linux = (h_system h = ''Linux''),
      is_macos = (h_system h = ''Darwin'')\<rparr>"

definition get_platform_name :: "build_config \<Rightarrow> string" where
  "get_platform_name s =
     (if is_windows s then ''windows''
      else if is_linux s then ''linux''
      else if is_macos s then ''macos''
      else ''unknown'')"

definition get_build_dir :: "build_config \<Rightarrow> path" where
  "get_build_dir s =
     project_root s @
       [''build'',
        (if truthy (build_type s) then str_lower (the (build_type s)) else ''release''),
        get_platform_name s]"


text \<open>\<^verbatim>\<open>build.py\<close>: \<^verbatim>\<open>get_platform_name\<close> and \<^verbatim>\<open>get_build_dir\<close> (lines 114 to 130).\<close>

definition get_platform_name_b :: "host \<Rightarrow> string" where
  "get_platform_name_b h =
     (if h_system h = ''Windows'' then ''windows''
      else if h_system h = ''Linux'' then ''linux''
      else if h_system h = ''Darwin'' then ''macos''
      else ''unknown'')"

definition get_build_dir_b :: "host \<Rightarrow> path \<Rightarrow> string \<Rightarrow> path" where
  "get_build_dir_b h root bt = root @ [''build'', str_lower bt, get_platform_name_b h]"

text \<open>The values \<^verbatim>\<open>argparse\<close> admits for \<^verbatim>\<open>--type\<close> in both scripts.\<close>

definition build_type_choices :: "string list" where
  "build_type_choices = [''Debug'', ''Release'', ''RelWithDebInfo'']"

section \<open>Shared helpers of the scripts\<close>

definition check_command :: "host \<Rightarrow> 'a world_scheme \<Rightarrow> string \<Rightarrow> bool" where
  "check_command h s cmd = h_which h (environ s) (fs s) cmd"

definition input :: "'a world_scheme \<Rightarrow> (exn + string) \<times> 'a world_scheme" where
  "input s =
     (case stdin s of
        [] \<Rightarrow> (Inl EOFError, s)
      | Line l # r \<Rightarrow> (Inr l, s\<lparr>stdin := r\<rparr>)
      | CtrlC # r \<Rightarrow> (Inl KeyboardInterrupt, s\<lparr>stdin := r\<rparr>))"

text \<open>
  \<^verbatim>\<open>ask_yes_no\<close> (\<^verbatim>\<open>configure.py\<close> lines 125 to 152). The loop asks again after
  an answer it does not know; an interrupt or the end of the input answers no.
\<close>

fun ask_yes_no_loop :: "bool \<Rightarrow> input_event list \<Rightarrow> bool \<times> input_event list" where
  "ask_yes_no_loop d [] = (False, [])"
| "ask_yes_no_loop d (CtrlC # r) = (False, r)"
| "ask_yes_no_loop d (Line l # r) =
     (if str_lower (str_strip l) = [] then (d, r)
      else if str_lower (str_strip l) \<in> set [''y'', ''yes''] then (True, r)
      else if str_lower (str_strip l) \<in> set [''n'', ''no''] then (False, r)
      else ask_yes_no_loop d r)"

definition ask_yes_no :: "bool \<Rightarrow> 'a world_scheme \<Rightarrow> bool \<times> 'a world_scheme" where
  "ask_yes_no d s = (fst (ask_yes_no_loop d (stdin s)), s\<lparr>stdin := snd (ask_yes_no_loop d (stdin s))\<rparr>)"

text \<open>
  \<^verbatim>\<open>read_cmake_cache\<close> (the same text in both scripts). The dictionary is a list
  of pairs with the latest assignment first, so that an empty dictionary can be told
  from one that lacks a key.
\<close>

definition cache_entry :: "(string \<times> string) list \<Rightarrow> string \<Rightarrow> (string \<times> string) list" where
  "cache_entry cache raw =
     (let line = str_strip raw
      in if line = [] \<or> prefix ''#'' line \<or> prefix ''//'' line then cache
         else if CHR ''='' \<in> set line \<and> CHR '':'' \<in> set line
         then (takeWhile (\<lambda>c. c \<noteq> CHR '':'') (fst (str_partition (CHR ''='') line)),
               snd (str_partition (CHR ''='') line)) # cache
         else cache)"

definition read_cmake_cache :: "filesystem \<Rightarrow> path \<Rightarrow> (string \<times> string) list" where
  "read_cmake_cache fsys build_dir =
     (case map_of fsys (build_dir @ [''CMakeCache.txt'']) of
        Some (File content _) \<Rightarrow> foldl cache_entry [] (file_lines content)
      | _ \<Rightarrow> [])"

text \<open>Starting a tool appends to the log.\<close>

definition run_capture ::
  "host \<Rightarrow> proc \<Rightarrow> string list \<Rightarrow> env \<Rightarrow> 'a world_scheme \<Rightarrow> (int \<times> string \<times> string) \<times> 'a world_scheme" where
  "run_capture h p cmd e s =
     (h_capture h cmd e (fs s), s\<lparr>spawned := spawned s @ [(p, fst (h_capture h cmd e (fs s)))]\<rparr>)"

definition run_tool ::
  "host \<Rightarrow> proc \<Rightarrow> string list \<Rightarrow> env \<Rightarrow> 'a world_scheme \<Rightarrow> int \<times> 'a world_scheme" where
  "run_tool h p cmd e s =
     (fst (h_run h cmd e (fs s)),
      s\<lparr>fs := snd (h_run h cmd e (fs s)),
        spawned := spawned s @ [(p, fst (h_run h cmd e (fs s)))]\<rparr>)"

section \<open>\<^verbatim>\<open>configure.py\<close>: compiler detection\<close>

definition vs_paths :: "path list" where
  "vs_paths =
     [Path_of True ''C:/Program Files/Microsoft Visual Studio/2022/Community'',
      Path_of True ''C:/Program Files/Microsoft Visual Studio/2022/Professional'',
      Path_of True ''C:/Program Files/Microsoft Visual Studio/2022/Enterprise'',
      Path_of True ''C:/Program Files (x86)/Microsoft Visual Studio/2019/Community'',
      Path_of True ''C:/Program Files (x86)/Microsoft Visual Studio/2019/Professional'',
      Path_of True ''C:/Program Files (x86)/Microsoft Visual Studio/2019/Enterprise'']"

definition llvm_paths :: "path list" where
  "llvm_paths =
     [Path_of True ''C:/Program Files/LLVM/bin'', Path_of True ''C:/Program Files (x86)/LLVM/bin'']"

text \<open>
  The directories of one Visual Studio installation that may hold \<^verbatim>\<open>clang-cl.exe\<close>,
  for the installations that exist (\<^verbatim>\<open>_setup_clang_cl_path\<close>, lines 284 to 292).
\<close>

definition clang_paths :: "filesystem \<Rightarrow> path list" where
  "clang_paths fsys =
     concat (map (\<lambda>vs_path.
        if path_exists fsys vs_path
        then [vs_path @ [''VC'', ''Tools'', ''Llvm'', ''x64'', ''bin''],
              vs_path @ [''VC'', ''Tools'', ''Llvm'', ''bin'']]
        else []) vs_paths)"

text \<open>
  The body of both loops of \<^verbatim>\<open>_setup_clang_cl_path\<close>: a directory that holds
  \<^verbatim>\<open>clang-cl.exe\<close> is put in front of \<^verbatim>\<open>PATH\<close> (reading \<^verbatim>\<open>PATH\<close> raises
  when it is unset), and the search stops as soon as the command resolves.
\<close>

fun try_clang_cl_dirs :: "host \<Rightarrow> path list \<Rightarrow> build_config \<Rightarrow> (exn + bool) \<times> build_config" where
  "try_clang_cl_dirs h [] s = (Inr False, s)"
| "try_clang_cl_dirs h (d # ds) s =
     (if path_exists (fs s) (d @ [''clang-cl.exe''])
      then (case environ s ''PATH'' of
              None \<Rightarrow> (Inl KeyError, s)
            | Some old \<Rightarrow>
                if check_command h (s\<lparr>environ := (environ s)(''PATH'' \<mapsto> path_str d @ '';'' @ old)\<rparr>) ''clang-cl''
                then (Inr True, s\<lparr>environ := (environ s)(''PATH'' \<mapsto> path_str d @ '';'' @ old)\<rparr>)
                else try_clang_cl_dirs h ds (s\<lparr>environ := (environ s)(''PATH'' \<mapsto> path_str d @ '';'' @ old)\<rparr>))
      else try_clang_cl_dirs h ds s)"

definition setup_clang_cl_path :: "host \<Rightarrow> build_config \<Rightarrow> (exn + bool) \<times> build_config" where
  "setup_clang_cl_path h s =
     (if \<not> is_windows s then (Inr True, s)
      else if check_command h s ''clang-cl'' then (Inr True, s)
      else (case try_clang_cl_dirs h (clang_paths (fs s)) s of
              (Inl e, s1) \<Rightarrow> (Inl e, s1)
            | (Inr True, s1) \<Rightarrow> (Inr True, s1)
            | (Inr False, s1) \<Rightarrow> try_clang_cl_dirs h llvm_paths s1))"

definition vswhere_args :: "string list" where
  "vswhere_args =
     [''-latest'', ''-products'', ''*'', ''-requires'',
      ''Microsoft.VisualStudio.Component.VC.Tools.x86.x64'', ''-property'', ''installationPath'']"

definition program_files_x86 :: "env \<Rightarrow> path" where
  "program_files_x86 e =
     Path_of True (environ_get e ''ProgramFiles(x86)'' (''C:'' @ [CHR 0x5C] @ ''Program Files (x86)''))"

definition program_files :: "env \<Rightarrow> path" where
  "program_files e =
     Path_of True (environ_get e ''ProgramFiles'' (''C:'' @ [CHR 0x5C] @ ''Program Files''))"

definition vswhere_exe :: "path \<Rightarrow> path" where
  "vswhere_exe base = base @ [''Microsoft Visual Studio'', ''Installer'', ''vswhere.exe'']"

text \<open>\<^verbatim>\<open>detect_msvc\<close> (lines 330 to 387): availability and the Visual Studio version.\<close>

definition detect_msvc :: "host \<Rightarrow> build_config \<Rightarrow> (bool \<times> string option) \<times> build_config" where
  "detect_msvc h s =
     (if \<not> is_windows s then ((False, None), s)
      else if path_exists (fs s) (vswhere_exe (program_files_x86 (environ s)))
      then (case run_capture h Vswhere
                   (path_str (vswhere_exe (program_files_x86 (environ s))) # vswhere_args)
                   (environ s) s of
              ((rc, out, err), s1) \<Rightarrow>
                if rc = 0 \<and> str_strip out \<noteq> [] \<and>
                   path_exists (fs s1)
                     (Path_of True (str_strip out) @ [''VC'', ''Auxiliary'', ''Build'', ''vcvarsall.bat''])
                then ((True, find (\<lambda>part. part \<in> set [''2022'', ''2019'', ''2017''])
                               (Path_of True (str_strip out))), s1)
                else if check_command h s1 ''cl'' then ((True, None), s1)
                else ((False, None), s1))
      else if check_command h s ''cl'' then ((True, None), s)
      else ((False, None), s))"

definition detect_gcc :: "host \<Rightarrow> build_config \<Rightarrow> bool" where
  "detect_gcc h s \<longleftrightarrow> check_command h s ''gcc'' \<and> check_command h s ''g++''"

text \<open>\<^verbatim>\<open>detect_clang\<close> (lines 570 to 599): availability and the variant found.\<close>

definition detect_clang :: "host \<Rightarrow> build_config \<Rightarrow> (exn + bool \<times> string option) \<times> build_config" where
  "detect_clang h s =
     (if is_windows s
      then (case (if \<not> check_command h s ''clang-cl'' then setup_clang_cl_path h s else (Inr True, s)) of
              (Inl e, s1) \<Rightarrow> (Inl e, s1)
            | (Inr _, s1) \<Rightarrow>
                if check_command h s1 ''clang-cl'' then (Inr (True, Some ''clang-cl''), s1)
                else if check_command h s1 ''clang'' \<and> check_command h s1 ''clang++''
                then (Inr (True, Some ''clang''), s1)
                else (Inr (False, None), s1))
      else if check_command h s ''clang'' \<and> check_command h s ''clang++''
      then (Inr (True, Some ''clang''), s)
      else (Inr (False, None), s))"

section \<open>\<^verbatim>\<open>configure.py\<close>: importing the Visual Studio environment\<close>

text \<open>
  The installation that \<^verbatim>\<open>vswhere\<close> names, else the first of the usual places that
  exists, else the empty string (\<^verbatim>\<open>setup_msvc_environment\<close>, lines 414 to 471).
\<close>

definition vswhere_path_of :: "'a world_scheme \<Rightarrow> path" where
  "vswhere_path_of s =
     (if \<not> path_exists (fs s) (vswhere_exe (program_files_x86 (environ s)))
         \<and> path_exists (fs s) (vswhere_exe (program_files (environ s)))
      then vswhere_exe (program_files (environ s))
      else vswhere_exe (program_files_x86 (environ s)))"

definition common_vs_path :: "filesystem \<Rightarrow> string" where
  "common_vs_path fsys =
     (case find (path_exists fsys) vs_paths of Some p \<Rightarrow> path_str p | None \<Rightarrow> [])"

definition locate_vs :: "host \<Rightarrow> 'a world_scheme \<Rightarrow> string \<times> 'a world_scheme" where
  "locate_vs h s =
     (if path_exists (fs s) (vswhere_path_of s)
      then (case run_capture h Vswhere (path_str (vswhere_path_of s) # vswhere_args) (environ s) s of
              ((rc, out, err), s1) \<Rightarrow>
                if rc = 0 \<and> str_strip out \<noteq> [] then (str_strip out, s1)
                else (common_vs_path (fs s1), s1))
      else (common_vs_path (fs s), s))"

definition vcvars_candidates :: "string \<Rightarrow> path list" where
  "vcvars_candidates vs_path =
     [Path_of True vs_path @ [''VC'', ''Auxiliary'', ''Build'', ''vcvarsall.bat''],
      Path_of True vs_path @ [''Common7'', ''Tools'', ''VsDevCmd.bat''],
      Path_of True vs_path @ [''Common7'', ''Tools'', ''vcvars64.bat'']]"

definition vcvars_cmd :: "path \<Rightarrow> string" where
  "vcvars_cmd vcvars =
     (if prefix ''vsdevcmd'' (str_lower (path_name vcvars))
      then [CHR 0x22] @ path_str vcvars @ [CHR 0x22] @ '' && set''
      else [CHR 0x22] @ path_str vcvars @ [CHR 0x22] @ '' amd64 && set'')"

text \<open>The tool whose presence shows that the environment is in place.\<close>

definition msvc_tools_visible :: "host \<Rightarrow> build_config \<Rightarrow> bool" where
  "msvc_tools_visible h s \<longleftrightarrow>
     (if compiler s = Some ''clang-cl''
      then check_command h s ''mt'' \<or> check_command h s ''mt.exe''
      else check_command h s ''cl'')"

text \<open>\<^verbatim>\<open>CompilerDetector.setup_msvc_environment\<close> (lines 389 to 563).\<close>

definition setup_msvc_environment :: "host \<Rightarrow> build_config \<Rightarrow> (exn + bool) \<times> build_config" where
  "setup_msvc_environment h s =
     (if \<not> is_windows s then (Inr True, s)
      else if truthy (build_system s) \<and> \<not> str_in ''Ninja'' (the (build_system s)) then (Inr True, s)
      else if compiler s \<notin> set [Some ''msvc'', Some ''cl'', Some ''clang-cl''] then (Inr True, s)
      else if msvc_tools_visible h s then (Inr True, s)
      else (case locate_vs h s of
              (vs_path, s1) \<Rightarrow>
                if vs_path = [] then (Inr False, s1)
                else (case find (path_exists (fs s1)) (vcvars_candidates vs_path) of
                        None \<Rightarrow> (Inr False, s1)
                      | Some vcvars \<Rightarrow>
                          (case run_capture h EnvScript [vcvars_cmd vcvars] (environ s1) s1 of
                             ((rc, out, err), s2) \<Rightarrow>
                               if rc \<noteq> 0 then (Inr False, s2)
                               else (case import_environ out (environ s2) of
                                       (Inl x, e) \<Rightarrow> (Inl x, s2\<lparr>environ := e\<rparr>)
                                     | (Inr _, e) \<Rightarrow>
                                         (Inr (msvc_tools_visible h (s2\<lparr>environ := e\<rparr>)),
                                          s2\<lparr>environ := e\<rparr>))))))"

section \<open>\<^verbatim>\<open>configure.py\<close>: choosing the compiler\<close>

definition use_msvc :: "build_config \<Rightarrow> build_config" where
  "use_msvc s = s\<lparr>compiler := Some ''msvc'', cxx_compiler := Some ''cl''\<rparr>"

definition use_clang_cl :: "build_config \<Rightarrow> build_config" where
  "use_clang_cl s = s\<lparr>compiler := Some ''clang-cl'', cxx_compiler := Some ''clang-cl''\<rparr>"

definition use_clang :: "build_config \<Rightarrow> build_config" where
  "use_clang s = s\<lparr>compiler := Some ''clang'', cxx_compiler := Some ''clang++''\<rparr>"

definition use_gcc :: "build_config \<Rightarrow> build_config" where
  "use_gcc s = s\<lparr>compiler := Some ''gcc'', cxx_compiler := Some ''g++''\<rparr>"

definition use_clang_variant :: "string option \<Rightarrow> build_config \<Rightarrow> build_config" where
  "use_clang_variant clang_variant s =
     (if clang_variant = Some ''clang-cl'' then use_clang_cl s else use_clang s)"

text \<open>\<^verbatim>\<open>select_compiler_interactive\<close> (lines 601 to 692).\<close>

definition select_compiler_interactive :: "host \<Rightarrow> build_config \<Rightarrow> (exn + bool) \<times> build_config" where
  "select_compiler_interactive h s =
     (if is_windows s
      then (case detect_msvc h s of
              ((has_msvc, vs_ver), s1) \<Rightarrow>
                (case detect_clang h s1 of
                   (Inl e, s2) \<Rightarrow> (Inl e, s2)
                 | (Inr (has_clang, clang_variant), s2) \<Rightarrow>
                     if \<not> has_msvc \<and> \<not> has_clang then (Inr False, s2)
                     else if has_msvc \<and> \<not> has_clang then (Inr True, use_msvc s2)
                     else if has_clang \<and> \<not> has_msvc then (Inr True, use_clang_variant clang_variant s2)
                     else (case input s2 of
                             (Inl e, s3) \<Rightarrow> (Inl e, s3)
                           | (Inr choice, s3) \<Rightarrow>
                               if str_strip choice = ''2''
                               then (Inr True, use_clang_variant clang_variant s3)
                               else (Inr True, use_msvc s3))))
      else if is_linux s \<or> is_macos s
      then (case detect_clang h s of
              (Inl e, s1) \<Rightarrow> (Inl e, s1)
            | (Inr (has_clang, clang_variant), s1) \<Rightarrow>
                if \<not> detect_gcc h s \<and> \<not> has_clang then (Inr False, s1)
                else if detect_gcc h s \<and> \<not> has_clang then (Inr True, use_gcc s1)
                else if has_clang \<and> \<not> detect_gcc h s then (Inr True, use_clang s1)
                else (case input s1 of
                        (Inl e, s2) \<Rightarrow> (Inl e, s2)
                      | (Inr choice, s2) \<Rightarrow>
                          if str_strip choice = ''2'' then (Inr True, use_clang s2)
                          else (Inr True, use_gcc s2)))
      else (Inr False, s))"

text \<open>
  \<^verbatim>\<open>setup_compiler\<close>, first branch (lines 697 to 765): a compiler was named and is
  validated against the host.
\<close>

definition validate_compiler :: "host \<Rightarrow> build_config \<Rightarrow> (exn + bool) \<times> build_config" where
  "validate_compiler h s =
     (if is_windows s
      then (if compiler s \<in> set [Some ''msvc'', Some ''cl'']
            then (case detect_msvc h s of
                    ((has_msvc, vs_ver), s1) \<Rightarrow>
                      if \<not> has_msvc then (Inr False, s1)
                      else (Inr True, (use_msvc s1)\<lparr>vs_version := vs_ver\<rparr>))
            else if compiler s \<in> set [Some ''clang'', Some ''clang-cl'']
            then (case (if compiler s = Some ''clang-cl'' then setup_clang_cl_path h s
                        else (Inr True, s)) of
                    (Inl e, s1) \<Rightarrow> (Inl e, s1)
                  | (Inr _, s1) \<Rightarrow>
                      (case detect_clang h s1 of
                         (Inl e, s2) \<Rightarrow> (Inl e, s2)
                       | (Inr (has_clang, clang_variant), s2) \<Rightarrow>
                           if \<not> has_clang then (Inr False, s2)
                           else if compiler s2 = Some ''clang-cl''
                           then (if clang_variant \<noteq> Some ''clang-cl'' \<and> \<not> check_command h s2 ''clang-cl''
                                 then (Inr False, s2)
                                 else (Inr True, use_clang_cl s2))
                           else (if clang_variant = Some ''clang-cl'' \<and>
                                    \<not> (check_command h s2 ''clang'' \<and> check_command h s2 ''clang++'')
                                 then (Inr True, use_clang_cl s2)
                                 else (Inr True, use_clang s2))))
            else (Inr False, s))
      else (if compiler s = Some ''gcc''
            then (if \<not> detect_gcc h s then (Inr False, s)
                  else (Inr True, s\<lparr>cxx_compiler := Some ''g++''\<rparr>))
            else if compiler s = Some ''clang''
            then (case detect_clang h s of
                    (Inl e, s1) \<Rightarrow> (Inl e, s1)
                  | (Inr (has_clang, clang_variant), s1) \<Rightarrow>
                      if \<not> has_clang then (Inr False, s1)
                      else (Inr True, s1\<lparr>cxx_compiler := Some ''clang++''\<rparr>))
            else (Inr False, s)))"

text \<open>
  How \<^verbatim>\<open>setup_compiler\<close> reads a cached \<^verbatim>\<open>CMAKE_CXX_COMPILER\<close> (lines 774 to
  798): the compiler and its C++ driver, or \<open>None\<close> for a value it does not know.
\<close>

definition cached_compiler :: "bool \<Rightarrow> string \<Rightarrow> (string \<times> string) option" where
  "cached_compiler windows cxx =
     (if str_in ''g++'' cxx \<or> str_in ''gcc'' cxx then Some (''gcc'', ''g++'')
      else if str_in ''clang-cl'' cxx then Some (''clang-cl'', ''clang-cl'')
      else if str_in ''clang++'' cxx \<or> str_in ''clang'' cxx then Some (''clang'', ''clang++'')
      else if str_in ''cl.exe'' cxx \<or> ''cl'' = path_name (Path_of windows cxx)
              \<or> str_in ''msvc'' (str_lower cxx)
      then Some (''msvc'', ''cl'')
      else None)"

text \<open>\<^verbatim>\<open>setup_compiler\<close>, lines 806 to 841: detection without a prompt.\<close>

definition autodetect_compiler :: "host \<Rightarrow> build_config \<Rightarrow> (exn + bool) \<times> build_config" where
  "autodetect_compiler h s =
     (if is_windows s
      then (case detect_msvc h s of
              ((has_msvc, vs_ver), s1) \<Rightarrow>
                (case detect_clang h s1 of
                   (Inl e, s2) \<Rightarrow> (Inl e, s2)
                 | (Inr (has_clang, clang_variant), s2) \<Rightarrow>
                     if has_msvc then (Inr True, (use_msvc s2)\<lparr>vs_version := vs_ver\<rparr>)
                     else if has_clang then (Inr True, use_clang_variant clang_variant s2)
                     else (Inr False, s2)))
      else if detect_gcc h s then (Inr True, use_gcc s)
      else (case detect_clang h s of
              (Inl e, s1) \<Rightarrow> (Inl e, s1)
            | (Inr (has_clang, clang_variant), s1) \<Rightarrow>
                if has_clang then (Inr True, use_clang s1) else (Inr False, s1)))"

text \<open>
  \<^verbatim>\<open>setup_compiler\<close> (lines 694 to 844). Without a named compiler the cache of the
  build directory is read first; \<open>hit\<close> is the compiler a known cached value stands
  for, and the dictionary is emptied when the cached value is not known.
\<close>

definition setup_compiler :: "host \<Rightarrow> build_config \<Rightarrow> (exn + bool) \<times> build_config" where
  "setup_compiler h s =
     (if truthy (compiler s) then validate_compiler h s
      else
        (let cmake_cache = read_cmake_cache (fs s) (get_build_dir s);
             has_entry = (cmake_cache \<noteq> [] \<and> map_of cmake_cache ''CMAKE_CXX_COMPILER'' \<noteq> None);
             hit = (if has_entry
                    then cached_compiler (is_windows s) (the (map_of cmake_cache ''CMAKE_CXX_COMPILER''))
                    else None);
             cmake_cache1 = (if has_entry \<and> hit = None then [] else cmake_cache);
             s1 = (case hit of
                     Some (c, cx) \<Rightarrow> s\<lparr>compiler := Some c, cxx_compiler := Some cx\<rparr>
                   | None \<Rightarrow> s)
         in if cmake_cache1 = [] \<or> map_of cmake_cache1 ''CMAKE_CXX_COMPILER'' = None
            then (if interactive s1 then select_compiler_interactive h s1
                  else autodetect_compiler h s1)
            else (Inr True, s1)))"

section \<open>\<^verbatim>\<open>configure.py\<close>: choosing the build system\<close>

definition detect_ninja :: "host \<Rightarrow> build_config \<Rightarrow> bool" where
  "detect_ninja h s \<longleftrightarrow> check_command h s ''ninja''"

definition detect_make :: "host \<Rightarrow> build_config \<Rightarrow> bool" where
  "detect_make h s \<longleftrightarrow> check_command h s ''make'' \<or> check_command h s ''mingw32-make''"

text \<open>\<^verbatim>\<open>detect_msbuild\<close> (lines 863 to 889): availability and the generator.\<close>

definition detect_msbuild :: "host \<Rightarrow> build_config \<Rightarrow> (bool \<times> string option) \<times> build_config" where
  "detect_msbuild h s =
     (if \<not> is_windows s then ((False, None), s)
      else (case detect_msvc h s of
              ((has_msvc, vs_ver), s1) \<Rightarrow>
                if \<not> has_msvc then ((False, None), s1)
                else if vs_ver = Some ''2022'' then ((True, Some ''Visual Studio 17 2022''), s1)
                else if vs_ver = Some ''2019'' then ((True, Some ''Visual Studio 16 2019''), s1)
                else if vs_ver = Some ''2017'' then ((True, Some ''Visual Studio 15 2017''), s1)
                else if check_command h s1 ''msbuild'' then ((True, Some ''Visual Studio 17 2022''), s1)
                else ((False, None), s1)))"

text \<open>\<^verbatim>\<open>select_build_system_interactive\<close> (lines 891 to 956).\<close>

definition select_build_system_interactive :: "host \<Rightarrow> build_config \<Rightarrow> (exn + bool) \<times> build_config" where
  "select_build_system_interactive h s =
     (if is_windows s
      then (case detect_msbuild h s of
              ((has_msbuild, msbuild_generator), s1) \<Rightarrow>
                if \<not> has_msbuild \<and> \<not> detect_ninja h s1 then (Inr False, s1)
                else if detect_ninja h s1 \<and> \<not> has_msbuild
                then (Inr True, s1\<lparr>build_system := Some ''Ninja''\<rparr>)
                else if has_msbuild \<and> \<not> detect_ninja h s1
                then (Inr True, s1\<lparr>build_system := msbuild_generator\<rparr>)
                else (case input s1 of
                        (Inl e, s2) \<Rightarrow> (Inl e, s2)
                      | (Inr choice, s2) \<Rightarrow>
                          if str_strip choice = ''1''
                          then (Inr True, s2\<lparr>build_system := msbuild_generator\<rparr>)
                          else (Inr True, s2\<lparr>build_system := Some ''Ninja''\<rparr>)))
      else if is_linux s \<or> is_macos s
      then (if \<not> detect_ninja h s \<and> \<not> detect_make h s then (Inr False, s)
            else if detect_ninja h s \<and> \<not> detect_make h s
            then (Inr True, s\<lparr>build_system := Some ''Ninja''\<rparr>)
            else if detect_make h s \<and> \<not> detect_ninja h s
            then (Inr True, s\<lparr>build_system := Some ''Make''\<rparr>)
            else (case input s of
                    (Inl e, s1) \<Rightarrow> (Inl e, s1)
                  | (Inr choice, s1) \<Rightarrow>
                      if str_strip choice = ''2''
                      then (Inr True, s1\<lparr>build_system := Some ''Make''\<rparr>)
                      else (Inr True, s1\<lparr>build_system := Some ''Ninja''\<rparr>)))
      else (Inr False, s))"

text \<open>\<^verbatim>\<open>setup_build_system\<close>, lines 961 to 980: a build system was named.\<close>

definition validate_build_system :: "host \<Rightarrow> build_config \<Rightarrow> bool \<times> build_config" where
  "validate_build_system h s =
     (let build_sys_lower = str_lower (the (build_system s))
      in if build_sys_lower = ''ninja''
         then (if \<not> detect_ninja h s then (False, s)
               else (True, s\<lparr>build_system := Some ''Ninja''\<rparr>))
         else if build_sys_lower \<in> set [''make'', ''unix makefiles'']
         then (if \<not> detect_make h s then (False, s)
               else (True, s\<lparr>build_system := Some ''Unix Makefiles''\<rparr>))
         else if build_sys_lower \<in> set [''msbuild'', ''visual studio'']
         then (case detect_msbuild h s of
                 ((has_msbuild, msbuild_generator), s1) \<Rightarrow>
                   if \<not> has_msbuild then (False, s1)
                   else (True, s1\<lparr>build_system := msbuild_generator\<rparr>))
         else (True, s))"

text \<open>\<^verbatim>\<open>setup_build_system\<close>, lines 987 to 1009: detection without a prompt.\<close>

definition autodetect_build_system :: "host \<Rightarrow> build_config \<Rightarrow> bool \<times> build_config" where
  "autodetect_build_system h s =
     (if is_windows s
      then (if detect_ninja h s then (True, s\<lparr>build_system := Some ''Ninja''\<rparr>)
            else (case detect_msbuild h s of
                    ((has_msbuild, msbuild_generator), s1) \<Rightarrow>
                      if has_msbuild then (True, s1\<lparr>build_system := msbuild_generator\<rparr>)
                      else (False, s1)))
      else if detect_ninja h s then (True, s\<lparr>build_system := Some ''Ninja''\<rparr>)
      else if detect_make h s then (True, s\<lparr>build_system := Some ''Unix Makefiles''\<rparr>)
      else (False, s))"

definition setup_build_system :: "host \<Rightarrow> build_config \<Rightarrow> (exn + bool) \<times> build_config" where
  "setup_build_system h s =
     (if truthy (build_system s)
      then (case validate_build_system h s of (ok, s1) \<Rightarrow> (Inr ok, s1))
      else if interactive s then select_build_system_interactive h s
      else (case autodetect_build_system h s of (ok, s1) \<Rightarrow> (Inr ok, s1)))"

section \<open>\<^verbatim>\<open>configure.py\<close>: Conan\<close>






section \<open>\<^verbatim>\<open>configure.py\<close>: \<^verbatim>\<open>CMakeBuilder\<close>\<close>

definition select_build_type_interactive :: "build_config \<Rightarrow> (exn + unit) \<times> build_config" where
  "select_build_type_interactive s =
     (case input s of
        (Inl e, s1) \<Rightarrow> (Inl e, s1)
      | (Inr choice, s1) \<Rightarrow>
          if str_strip choice = ''1'' then (Inr (), s1\<lparr>build_type := Some ''Debug''\<rparr>)
          else if str_strip choice = ''2'' then (Inr (), s1\<lparr>build_type := Some ''RelWithDebInfo''\<rparr>)
          else (Inr (), s1\<lparr>build_type := Some ''Release''\<rparr>))"

definition select_modules_interactive :: "build_config \<Rightarrow> (exn + unit) \<times> build_config" where
  "select_modules_interactive s =
     (case input s of
        (Inl e, s1) \<Rightarrow> (Inl e, s1)
      | (Inr choice, s1) \<Rightarrow>
          if str_strip choice = ''1'' then (Inr (), s1\<lparr>core_only := Some True\<rparr>)
          else (Inr (), s1\<lparr>core_only := Some False\<rparr>))"

definition select_tests_and_examples_interactive :: "build_config \<Rightarrow> build_config" where
  "select_tests_and_examples_interactive s =
     (let s1 = (if build_tests s = None
                then (case ask_yes_no False s of (b, s') \<Rightarrow> s'\<lparr>build_tests := Some b\<rparr>)
                else s)
      in if build_examples s1 = None
         then (case ask_yes_no False s1 of (b, s') \<Rightarrow> s'\<lparr>build_examples := Some b\<rparr>)
         else s1)"

definition on_off :: "bool \<Rightarrow> string" where
  "on_off b = (if b then ''ON'' else ''OFF'')"

text \<open>How an f-string prints an \<^verbatim>\<open>Optional[str]\<close>.\<close>

definition opt_show :: "string option \<Rightarrow> string" where
  "opt_show x = (case x of Some v \<Rightarrow> v | None \<Rightarrow> ''None'')"

definition module_flags :: "build_config \<Rightarrow> string list" where
  "module_flags s =
     (case core_only s of Some b \<Rightarrow> [''-DHELIOS_BUILD_CORE_ONLY='' @ on_off b] | None \<Rightarrow> [])
     @ (case build_tests s of Some b \<Rightarrow> [''-DHELIOS_BUILD_TESTS='' @ on_off b] | None \<Rightarrow> [])
     @ (case build_examples s of Some b \<Rightarrow> [''-DHELIOS_BUILD_EXAMPLES='' @ on_off b] | None \<Rightarrow> [])"

text \<open>
  \<^verbatim>\<open>shlex.split(self.config.cmake_args)\<close> when the arguments are not empty;
  \<open>None\<close> is the \<^verbatim>\<open>ValueError\<close> of an unbalanced quotation.
\<close>

definition extra_args :: "host \<Rightarrow> build_config \<Rightarrow> string list option" where
  "extra_args h s = (if cmake_args s = [] then Some [] else h_shlex_split h (cmake_args s))"

definition uses_conan_toolchain :: "build_config \<Rightarrow> bool" where
  "uses_conan_toolchain s \<longleftrightarrow> use_conan s = Some True \<and> conan_toolchain s \<noteq> None"

text \<open>The command line of lines 1226 to 1264.\<close>

definition conan_cmake_cmd :: "build_config \<Rightarrow> string list \<Rightarrow> string list" where
  "conan_cmake_cmd s extra =
     [''cmake'', ''-S'', path_str (project_root s), ''-B'', path_str (get_build_dir s),
      ''-DCMAKE_TOOLCHAIN_FILE='' @ path_str (the (conan_toolchain s)),
      ''-DCMAKE_EXPORT_COMPILE_COMMANDS=ON'', ''-DHELIOS_USE_CONAN=ON'', ''-DHELIOS_FORCE_CONAN=ON'']
     @ (if truthy (build_system s) then [''-G'', the (build_system s)] else [])
     @ (if truthy (build_type s) then [''-DCMAKE_BUILD_TYPE='' @ the (build_type s)] else [])
     @ module_flags s
     @ extra"

definition is_multi_config :: "build_config \<Rightarrow> bool" where
  "is_multi_config s \<longleftrightarrow> truthy (build_system s) \<and> str_in ''Visual Studio'' (the (build_system s))"

text \<open>The compiler arguments of lines 1342 to 1376.\<close>

definition compiler_flags :: "host \<Rightarrow> build_config \<Rightarrow> string list" where
  "compiler_flags h s =
     (if \<not> is_multi_config s \<and> truthy (compiler s) \<and> compiler s \<noteq> Some ''msvc''
      then [''-DCMAKE_C_COMPILER='' @ the (compiler s),
            ''-DCMAKE_CXX_COMPILER='' @ (if compiler s = Some ''clang-cl'' then ''clang-cl''
                                           else opt_show (cxx_compiler s))]
           @ (if compiler s = Some ''clang-cl''
              then (if check_command h s ''llvm-lib'' then [''-DCMAKE_AR=llvm-lib''] else [])
              else if compiler s = Some ''clang'' \<and> \<not> is_windows s
              then (if check_command h s ''llvm-ar'' then [''-DCMAKE_AR=llvm-ar''] else [])
                   @ (if check_command h s ''llvm-ranlib'' then [''-DCMAKE_RANLIB=llvm-ranlib''] else [])
              else [])
      else [])"

text \<open>The command line of lines 1309 to 1399.\<close>

definition manual_cmake_cmd :: "host \<Rightarrow> build_config \<Rightarrow> string list \<Rightarrow> string list" where
  "manual_cmake_cmd h s extra =
     [''cmake'', ''-S'', path_str (project_root s), ''-B'', path_str (get_build_dir s)]
     @ (if truthy (build_system s) then [''-G'', the (build_system s)] else [])
     @ (if uses_conan_toolchain s
        then [''-DCMAKE_TOOLCHAIN_FILE='' @ path_str (the (conan_toolchain s)),
              ''-DHELIOS_USE_CONAN=ON'', ''-DHELIOS_FORCE_CONAN=ON'']
        else [''-DHELIOS_USE_CONAN=OFF'', ''-DHELIOS_FORCE_CONAN=OFF''])
     @ (if truthy (build_type s) \<and> \<not> is_multi_config s
        then [''-DCMAKE_BUILD_TYPE='' @ the (build_type s)] else [])
     @ compiler_flags h s
     @ module_flags s
     @ [''-DCMAKE_EXPORT_COMPILE_COMMANDS=ON'']
     @ extra"

text \<open>
  Lines 1282 to 1299: the cache names a generator other than the chosen one (the first
  such line decides).
\<close>

definition generator_changed :: "build_config \<Rightarrow> bool" where
  "generator_changed s \<longleftrightarrow>
     (case map_of (fs s) (get_build_dir s @ [''CMakeCache.txt'']) of
        Some (File content _) \<Rightarrow>
          list_ex (\<lambda>line. prefix ''CMAKE_GENERATOR:INTERNAL='' line \<and>
                          Some (snd (str_partition (CHR ''='') line)) \<noteq> build_system s)
            (splitlines content)
      | _ \<Rightarrow> False)"

text \<open>
  Lines 1404 to 1428: the environment handed to CMake, a copy of the process's own,
  extended on Windows by what \<^verbatim>\<open>conanbuild.bat\<close> sets.
\<close>

definition conan_build_env :: "host \<Rightarrow> build_config \<Rightarrow> env \<times> build_config" where
  "conan_build_env h s =
     (if is_windows s \<and> use_conan s = Some True \<and>
         path_exists (fs s) (get_build_dir s @ [''conanbuild.bat''])
      then (case run_capture h EnvScript
                   [[CHR 0x22] @ path_str (get_build_dir s @ [''conanbuild.bat'']) @ [CHR 0x22] @ '' && set'']
                   (environ s) s of
              ((rc, out, err), s1) \<Rightarrow>
                if rc = 0 then (import_environment out (environ s1), s1)
                else (environ s1, s1))
      else (environ s, s))"

text \<open>Setting a result aside: the file system of a state, replaced.\<close>

definition with_fs :: "build_config \<Rightarrow> filesystem \<Rightarrow> build_config" where
  "with_fs s fsys = s\<lparr>fs := fsys\<rparr>"

text \<open>\<^verbatim>\<open>configure\<close>, lines 1219 to 1274: the Conan toolchain file is used.\<close>

definition configure_conan :: "host \<Rightarrow> build_config \<Rightarrow> (exn + bool) \<times> build_config" where
  "configure_conan h s =
     (case mkdir_parents (fs s) (get_build_dir s) of
        Inl e \<Rightarrow> (Inl e, s)
      | Inr fs1 \<Rightarrow>
          (case extra_args h s of
             None \<Rightarrow> (Inl ValueError, with_fs s fs1)
           | Some extra \<Rightarrow>
               (case run_tool h CMakeConfigure (conan_cmake_cmd s extra) (environ s) (with_fs s fs1) of
                  (rc, s1) \<Rightarrow> (Inr (rc = 0), s1))))"

text \<open>\<^verbatim>\<open>configure\<close>, lines 1276 to 1438: configuration without the toolchain file.\<close>

definition clean_step :: "build_config \<Rightarrow> (exn + unit) \<times> build_config" where
  "clean_step s =
     (if clean_build s
      then (case mkdir_parents
                   (if path_exists (fs s) (get_build_dir s) then rmtree (fs s) (get_build_dir s) else fs s)
                   (get_build_dir s) of
              Inl e \<Rightarrow> (Inl e, with_fs s (if path_exists (fs s) (get_build_dir s)
                                              then rmtree (fs s) (get_build_dir s) else fs s))
            | Inr fs1 \<Rightarrow> (Inr (), with_fs s fs1))
      else (Inr (), s))"

definition generator_step :: "build_config \<Rightarrow> build_config" where
  "generator_step s =
     (if generator_changed s \<and> interactive s
      then (case ask_yes_no True s of
              (True, s1) \<Rightarrow> s1\<lparr>clean_build := True\<rparr>
            | (False, s1) \<Rightarrow> s1)
      else s)"

definition configure_manual :: "host \<Rightarrow> build_config \<Rightarrow> (exn + bool) \<times> build_config" where
  "configure_manual h s =
     (case mkdir_parents (fs s) (get_build_dir s) of
        Inl e \<Rightarrow> (Inl e, s)
      | Inr fs1 \<Rightarrow>
          (case clean_step (generator_step (with_fs s fs1)) of
             (Inl e, s1) \<Rightarrow> (Inl e, s1)
           | (Inr _, s1) \<Rightarrow>
               (case extra_args h s1 of
                  None \<Rightarrow> (Inl ValueError, s1)
                | Some extra \<Rightarrow>
                    (case conan_build_env h s1 of
                       (e, s2) \<Rightarrow>
                         (case run_tool h CMakeConfigure (manual_cmake_cmd h s1 extra) e s2 of
                            (rc, s3) \<Rightarrow> (Inr (rc = 0), s3))))))"

definition configure :: "host \<Rightarrow> build_config \<Rightarrow> (exn + bool) \<times> build_config" where
  "configure h s = (if uses_conan_toolchain s then configure_conan h s else configure_manual h s)"

section \<open>\<^verbatim>\<open>configure.py\<close>: \<^verbatim>\<open>main\<close>\<close>



text \<open>
  Lines 1653 to 1664 and 1684 to 1695: the environment import fails the run only for
  the compilers that need it.
\<close>

definition msvc_environment_step :: "host \<Rightarrow> build_config \<Rightarrow> (exn + bool) \<times> build_config" where
  "msvc_environment_step h s =
     (case setup_msvc_environment h s of
        (Inl e, s1) \<Rightarrow> (Inl e, s1)
      | (Inr ok, s1) \<Rightarrow> (Inr (ok \<or> compiler s1 \<notin> set [Some ''msvc'', Some ''clang-cl'']), s1))"

text \<open>Compiler, build system and environment, in the order of both branches of \<^verbatim>\<open>main\<close>.\<close>

definition toolchain_steps :: "host \<Rightarrow> build_config \<Rightarrow> (exn + bool) \<times> build_config" where
  "toolchain_steps h s =
     (case (if interactive s \<and> \<not> truthy (compiler s) then select_compiler_interactive h s
            else (Inr True, s)) of
        (Inl e, s1) \<Rightarrow> (Inl e, s1)
      | (Inr _, s1) \<Rightarrow>
          (case setup_compiler h s1 of
             (Inl e, s2) \<Rightarrow> (Inl e, s2)
           | (Inr False, s2) \<Rightarrow> (Inr False, s2)
           | (Inr True, s2) \<Rightarrow>
               (case (if interactive s2 \<and> \<not> truthy (build_system s2)
                      then select_build_system_interactive h s2 else (Inr True, s2)) of
                  (Inl e, s3) \<Rightarrow> (Inl e, s3)
                | (Inr _, s3) \<Rightarrow>
                    (case setup_build_system h s3 of
                       (Inl e, s4) \<Rightarrow> (Inl e, s4)
                     | (Inr False, s4) \<Rightarrow> (Inr False, s4)
                     | (Inr True, s4) \<Rightarrow>
                         msvc_environment_step h s4))))"

text \<open>Lines 1631 to 1639: the prompts that come before the compiler.\<close>

definition interactive_selections :: "build_config \<Rightarrow> (exn + unit) \<times> build_config" where
  "interactive_selections s =
     (case (if core_only s = None then select_modules_interactive s else (Inr (), s)) of
        (Inl e, s1) \<Rightarrow> (Inl e, s1)
      | (Inr _, s1) \<Rightarrow>
          if \<not> truthy (build_type (select_tests_and_examples_interactive s1))
          then select_build_type_interactive (select_tests_and_examples_interactive s1)
          else (Inr (), select_tests_and_examples_interactive s1))"

text \<open>Lines 1667 to 1674: the defaults of a run without prompts.\<close>

definition noninteractive_defaults :: "build_config \<Rightarrow> build_config" where
  "noninteractive_defaults s =
     s\<lparr>build_type := (if \<not> truthy (build_type s) then Some ''Release'' else build_type s),
       core_only := (if core_only s = None then Some False else core_only s),
       build_tests := (if build_tests s = None then Some False else build_tests s),
       build_examples := (if build_examples s = None then Some False else build_examples s)\<rparr>"

text \<open>
  Lines 1631 to 1695: the configuration is resolved; \<open>Inr False\<close> is the early
  \<^verbatim>\<open>return 1\<close>.
\<close>

definition resolve :: "host \<Rightarrow> build_config \<Rightarrow> (exn + bool) \<times> build_config" where
  "resolve h s =
     (if interactive s
      then (case interactive_selections s of
              (Inl e, s1) \<Rightarrow> (Inl e, s1)
            | (Inr _, s1) \<Rightarrow> toolchain_steps h s1)
      else toolchain_steps h (noninteractive_defaults s))"



section \<open>Notions used in the statements\<close>





text \<open>The systems that \<^verbatim>\<open>get_platform_name\<close> knows by name.\<close>

definition named_systems :: "string list" where
  "named_systems = [''Windows'', ''Linux'', ''Darwin'']"

text \<open>
  A configuration of a run on a given host: its platform flags are what
  \<^verbatim>\<open>BuildConfig.__init__\<close> reads from \<^verbatim>\<open>platform.system()\<close> (lines 223 to 225),
  whatever its other fields have become.
\<close>

definition created_on :: "host \<Rightarrow> build_config \<Rightarrow> bool" where
  "created_on h c \<longleftrightarrow>
     is_windows c = (h_system h = ''Windows'') \<and> is_linux c = (h_system h = ''Linux'')
     \<and> is_macos c = (h_system h = ''Darwin'')"


definition example_host :: "string \<Rightarrow> host" where
  "example_host system =
     \<lparr>h_system = system, h_script_dir = [''repo'', ''scripts''], h_executable = ''python3'',
      h_which = (\<lambda>e fsys cmd. False), h_shlex_split = (\<lambda>s. Some []),
      h_capture = (\<lambda>cmd e fsys. (0, [], [])), h_run = (\<lambda>cmd e fsys. (0, fsys))\<rparr>"

definition empty_world :: world where
  "empty_world = \<lparr>environ = Map.empty, fs = [], stdin = [], spawned = []\<rparr>"

section \<open>\<^verbatim>\<open>build.py\<close>: configured build directories\<close>

text \<open>\<^verbatim>\<open>str.capitalize()\<close>.\<close>

definition str_capitalize :: "string \<Rightarrow> string" where
  "str_capitalize s = (case s of [] \<Rightarrow> [] | c # cs \<Rightarrow> upper_char c # str_lower cs)"

text \<open>\<^verbatim>\<open>str(n)\<close> for an integer.\<close>

fun nat_str :: "nat \<Rightarrow> string" where
  "nat_str n =
     (if n < 10 then [''0123456789'' ! n]
      else nat_str (n div 10) @ [''0123456789'' ! (n mod 10)])"

declare nat_str.simps [simp del]

definition int_str :: "int \<Rightarrow> string" where
  "int_str i = (if i < 0 then CHR ''-'' # nat_str (nat (- i)) else nat_str (nat i))"

text \<open>
  The directories \<^verbatim>\<open>build/<type>/<platform>\<close> that hold a \<^verbatim>\<open>CMakeCache.txt\<close>, in
  the order of the directory listings (the loops of lines 141 to 147 and 164 to 170).
  Listing \<^verbatim>\<open>build\<close> raises when it is not a directory.
\<close>

definition configured_dirs :: "filesystem \<Rightarrow> path \<Rightarrow> path list" where
  "configured_dirs fsys build_root =
     concat (map (\<lambda>build_type_dir.
        if is_dir fsys build_type_dir
        then filter (\<lambda>platform_dir. is_dir fsys platform_dir \<and>
                       path_exists fsys (platform_dir @ [''CMakeCache.txt'']))
               (iterdir fsys build_type_dir)
        else []) (iterdir fsys build_root))"

text \<open>\<^verbatim>\<open>max(dirs, key=...)\<close>: the first directory with the greatest key.\<close>

definition max_by :: "('a \<Rightarrow> nat) \<Rightarrow> 'a \<Rightarrow> 'a list \<Rightarrow> 'a" where
  "max_by f d ds = foldl (\<lambda>best x. if f best < f x then x else best) d ds"

text \<open>\<^verbatim>\<open>find_configured_build_dir\<close> (lines 133 to 153).\<close>

definition find_configured_build_dir :: "filesystem \<Rightarrow> path \<Rightarrow> exn + path option" where
  "find_configured_build_dir fsys root =
     (if \<not> path_exists fsys (root @ [''build'']) then Inr None
      else if \<not> is_dir fsys (root @ [''build'']) then Inl OSError
      else (case configured_dirs fsys (root @ [''build'']) of
              [] \<Rightarrow> Inr None
            | d # ds \<Rightarrow> Inr (Some (max_by (\<lambda>p. mtime fsys (p @ [''CMakeCache.txt''])) d ds))))"

definition build_type_order :: "path \<Rightarrow> nat" where
  "build_type_order p =
     (case map_of [(''debug'', 0), (''release'', 1), (''relwithdebinfo'', 2)]
             (str_lower (path_name (path_parent p))) of
        Some n \<Rightarrow> n
      | None \<Rightarrow> 999)"

text \<open>\<^verbatim>\<open>find_all_configured_build_dirs\<close> (lines 156 to 178); the sort is stable.\<close>

definition find_all_configured_build_dirs :: "filesystem \<Rightarrow> path \<Rightarrow> exn + path list" where
  "find_all_configured_build_dirs fsys root =
     (if \<not> path_exists fsys (root @ [''build'']) then Inr []
      else if \<not> is_dir fsys (root @ [''build'']) then Inl OSError
      else Inr (sort_key build_type_order (configured_dirs fsys (root @ [''build'']))))"

text \<open>\<^verbatim>\<open>detect_build_type_from_dir\<close> (lines 181 to 192).\<close>

definition detect_build_type_from_dir :: "path \<Rightarrow> string" where
  "detect_build_type_from_dir build_dir =
     (let bt = path_name (path_parent build_dir)
      in if str_lower bt \<in> set [''debug'', ''release'', ''relwithdebinfo'']
         then (if str_lower bt = ''relwithdebinfo'' then ''RelWithDebInfo'' else str_capitalize bt)
         else ''Release'')"

definition is_configured :: "filesystem \<Rightarrow> path \<Rightarrow> bool" where
  "is_configured fsys build_dir \<longleftrightarrow> path_exists fsys (build_dir @ [''CMakeCache.txt''])"

section \<open>\<^verbatim>\<open>build.py\<close>: choosing what to build\<close>

text \<open>
  What \<^verbatim>\<open>select_build_dir_interactive\<close> returns when the user does not leave: the
  directory, whether it must be configured, and its build type.
\<close>

type_synonym selection = "path option \<times> bool \<times> string option"

definition default_choice :: "string \<Rightarrow> string" where
  "default_choice l = (if str_strip l = [] then ''1'' else str_strip l)"

definition pick :: "path list \<Rightarrow> int \<Rightarrow> bool \<Rightarrow> selection" where
  "pick dirs idx needs_configure =
     (Some (dirs ! nat (idx - 1)), needs_configure,
      Some (detect_build_type_from_dir (dirs ! nat (idx - 1))))"

text \<open>
  The loop of lines 227 to 279 over the pending input. The first prompt of a round is
  guarded: an interrupt or the end of the input returns \<^verbatim>\<open>None\<close>. The prompt for
  the build to reconfigure (line 257) stands in the \<^verbatim>\<open>try\<close> that catches
  \<^verbatim>\<open>ValueError\<close> only, so an interrupt or the end of the input leaves the function
  as an exception.
\<close>

fun select_loop ::
  "path list \<Rightarrow> input_event list \<Rightarrow> (exn + selection option) \<times> input_event list" where
  "select_loop dirs [] = (Inr None, [])"
| "select_loop dirs (CtrlC # r) = (Inr None, r)"
| "select_loop dirs (Line l # r) =
     (case python_int (default_choice l) of
        None \<Rightarrow> select_loop dirs r
      | Some idx \<Rightarrow>
          if 1 \<le> idx \<and> idx \<le> int (length dirs) then (Inr (Some (pick dirs idx False)), r)
          else if idx = int (length dirs) + 1 then (Inr (Some (None, True, None)), r)
          else if idx = int (length dirs) + 2
          then (case r of
                  [] \<Rightarrow> (Inl EOFError, [])
                | CtrlC # r' \<Rightarrow> (Inl KeyboardInterrupt, r')
                | Line l2 # r' \<Rightarrow>
                    (case python_int (default_choice l2) of
                       None \<Rightarrow> select_loop dirs r'
                     | Some reconfig_idx \<Rightarrow>
                         if 1 \<le> reconfig_idx \<and> reconfig_idx \<le> int (length dirs)
                         then (Inr (Some (pick dirs reconfig_idx True)), r')
                         else select_loop dirs r'))
          else select_loop dirs r)"

text \<open>\<^verbatim>\<open>select_build_dir_interactive\<close> (lines 201 to 281).\<close>

definition select_build_dir_interactive :: "path \<Rightarrow> world \<Rightarrow> (exn + selection option) \<times> world" where
  "select_build_dir_interactive root w =
     (case find_all_configured_build_dirs (fs w) root of
        Inl e \<Rightarrow> (Inl e, w)
      | Inr [] \<Rightarrow> (Inr (Some (None, True, None)), w)
      | Inr dirs \<Rightarrow>
          (fst (select_loop dirs (stdin w)), w\<lparr>stdin := snd (select_loop dirs (stdin w))\<rparr>))"

section \<open>\<^verbatim>\<open>build.py\<close>: running \<^verbatim>\<open>configure.py\<close>\<close>

text \<open>The namespace that \<^verbatim>\<open>parse_arguments\<close> of \<^verbatim>\<open>build.py\<close> returns (lines 559 to 713).\<close>

record build_args =
  b_type :: "string option"
  b_compiler :: "string option"
  b_build_system :: "string option"
  b_platform :: "string option"
  b_core_only :: bool
  b_build_tests :: "bool option"
  b_build_examples :: "bool option"
  b_use_conan :: "bool option"
  b_jobs :: int
  b_clean :: bool
  b_no_interactive :: bool
  b_skip_configure :: bool
  b_format :: bool
  b_lint :: bool
  b_cmake_args :: string

text \<open>
  Lines 308 to 346: what the cache of the build directory to reconfigure adds to the
  command line, each only when the flag is not given. (\<^verbatim>\<open>--core-only\<close> is a
  \<^verbatim>\<open>store_true\<close> flag and never \<^verbatim>\<open>None\<close>, so lines 326 to 328 add nothing.)
\<close>

definition cached_compiler_flags :: "build_args \<Rightarrow> (string \<rightharpoonup> string) \<Rightarrow> string list" where
  "cached_compiler_flags a cache =
     (case cache ''CMAKE_CXX_COMPILER'' of
        Some cxx \<Rightarrow>
          if truthy (b_compiler a) then []
          else if str_in ''g++'' cxx \<or> str_in ''gcc'' cxx then [''--compiler'', ''gcc'']
          else if str_in ''clang++'' cxx \<or> str_in ''clang'' cxx then [''--compiler'', ''clang'']
          else if str_in ''cl.exe'' cxx \<or> str_in ''msvc'' (str_lower cxx) then [''--compiler'', ''msvc'']
          else []
      | None \<Rightarrow> [])"

definition cached_generator_flags :: "build_args \<Rightarrow> (string \<rightharpoonup> string) \<Rightarrow> string list" where
  "cached_generator_flags a cache =
     (case cache ''CMAKE_GENERATOR'' of
        Some generator \<Rightarrow>
          if truthy (b_build_system a) then [] else [''--build-system'', generator]
      | None \<Rightarrow> [])"

definition cached_tests_flags :: "build_args \<Rightarrow> (string \<rightharpoonup> string) \<Rightarrow> string list" where
  "cached_tests_flags a cache =
     (case cache ''HELIOS_BUILD_TESTS'' of
        Some v \<Rightarrow>
          if b_build_tests a \<noteq> None then []
          else if v = ''ON'' then [''--tests''] else [''--no-tests'']
      | None \<Rightarrow> [])"

definition cached_examples_flags :: "build_args \<Rightarrow> (string \<rightharpoonup> string) \<Rightarrow> string list" where
  "cached_examples_flags a cache =
     (case cache ''HELIOS_BUILD_EXAMPLES'' of
        Some v \<Rightarrow>
          if b_build_examples a \<noteq> None then []
          else if v = ''ON'' then [''--examples''] else [''--no-examples'']
      | None \<Rightarrow> [])"

definition cached_conan_flags :: "build_args \<Rightarrow> filesystem \<Rightarrow> path \<Rightarrow> string list" where
  "cached_conan_flags a fsys existing =
     (if b_use_conan a = None \<and> path_exists fsys (existing @ [''conan_toolchain.cmake''])
      then [''--use-conan''] else [])"

definition cached_flags :: "build_args \<Rightarrow> filesystem \<Rightarrow> path \<Rightarrow> string list" where
  "cached_flags a fsys existing =
     cached_compiler_flags a (map_of (read_cmake_cache fsys existing))
     @ cached_generator_flags a (map_of (read_cmake_cache fsys existing))
     @ cached_tests_flags a (map_of (read_cmake_cache fsys existing))
     @ cached_examples_flags a (map_of (read_cmake_cache fsys existing))
     @ cached_conan_flags a fsys existing"

text \<open>Lines 348 to 379: the flags given on the command line are passed on.\<close>

definition explicit_flags :: "build_args \<Rightarrow> string list" where
  "explicit_flags a =
     (if truthy (b_type a) then [''--type'', the (b_type a)] else [])
     @ (if truthy (b_compiler a) then [''--compiler'', the (b_compiler a)] else [])
     @ (if truthy (b_build_system a) then [''--build-system'', the (b_build_system a)] else [])
     @ (if truthy (b_platform a) then [''--platform'', the (b_platform a)] else [])
     @ (if b_core_only a then [''--core-only''] else [])
     @ (case b_build_tests a of
          Some b \<Rightarrow> [if b then ''--tests'' else ''--no-tests''] | None \<Rightarrow> [])
     @ (case b_build_examples a of
          Some b \<Rightarrow> [if b then ''--examples'' else ''--no-examples''] | None \<Rightarrow> [])
     @ (case b_use_conan a of
          Some b \<Rightarrow> [if b then ''--use-conan'' else ''--no-conan''] | None \<Rightarrow> [])
     @ (if b_clean a then [''--clean''] else [])
     @ (if b_no_interactive a then [''--no-interactive''] else [])
     @ (if b_cmake_args a \<noteq> [] then [''--cmake-args'', b_cmake_args a] else [])"

definition configure_cmd :: "host \<Rightarrow> build_args \<Rightarrow> filesystem \<Rightarrow> path option \<Rightarrow> string list" where
  "configure_cmd h a fsys existing_build_dir =
     [h_executable h, path_str (h_script_dir h @ [''configure.py''])]
     @ (case existing_build_dir of
          Some d \<Rightarrow> if path_exists fsys d then cached_flags a fsys d else []
        | None \<Rightarrow> [])
     @ explicit_flags a"

text \<open>
  \<^verbatim>\<open>run_configure\<close> (lines 284 to 389): success, and the most recently configured
  build directory after a successful run.
\<close>

definition run_configure ::
  "host \<Rightarrow> build_args \<Rightarrow> path option \<Rightarrow> world \<Rightarrow> (exn + bool \<times> path option) \<times> world" where
  "run_configure h a existing_build_dir w =
     (if \<not> path_exists (fs w) (h_script_dir h @ [''configure.py'']) then (Inr (False, None), w)
      else (case run_tool h ConfigureScript (configure_cmd h a (fs w) existing_build_dir) (environ w) w of
              (rc, w1) \<Rightarrow>
                if rc = 0
                then (case find_configured_build_dir (fs w1) (path_parent (h_script_dir h)) of
                        Inl e \<Rightarrow> (Inl e, w1)
                      | Inr d \<Rightarrow> (Inr (True, d), w1))
                else (Inr (False, None), w1)))"

section \<open>\<^verbatim>\<open>build.py\<close>: building\<close>

text \<open>
  \<^verbatim>\<open>setup_msvc_environment\<close> of \<^verbatim>\<open>build.py\<close> (lines 392 to 488). It returns an
  environment for the build, a copy of the process's own with the variables of
  \<^verbatim>\<open>vcvarsall.bat\<close> added; \<^verbatim>\<open>os.environ\<close> itself is left as it is.
\<close>

definition setup_msvc_environment_b :: "host \<Rightarrow> world \<Rightarrow> env \<times> world" where
  "setup_msvc_environment_b h w =
     (if h_system h \<noteq> ''Windows'' then (environ w, w)
      else if check_command h w ''cl'' \<and> environ w ''INCLUDE'' \<noteq> None then (environ w, w)
      else (case locate_vs h w of
              (vs_path, w1) \<Rightarrow>
                if vs_path = [] then (environ w1, w1)
                else if \<not> path_exists (fs w1)
                          (Path_of True vs_path @ [''VC'', ''Auxiliary'', ''Build'', ''vcvarsall.bat''])
                then (environ w1, w1)
                else (case run_capture h EnvScript
                             [[CHR 0x22]
                              @ path_str (Path_of True vs_path @ [''VC'', ''Auxiliary'', ''Build'', ''vcvarsall.bat''])
                              @ [CHR 0x22] @ '' amd64 && set'']
                             (environ w1) w1 of
                        ((rc, out, err), w2) \<Rightarrow>
                          if rc = 0 then (import_environment out (environ w2), w2)
                          else (environ w2, w2))))"

text \<open>Lines 503 to 531: the environment of the build.\<close>

definition build_env :: "host \<Rightarrow> path \<Rightarrow> world \<Rightarrow> env \<times> world" where
  "build_env h build_dir w =
     (if h_system h = ''Windows''
      then (if path_exists (fs w) (build_dir @ [''conanbuild.bat''])
            then (case run_capture h EnvScript
                         [[CHR 0x22] @ path_str (build_dir @ [''conanbuild.bat'']) @ [CHR 0x22] @ '' && set'']
                         (environ w) w of
                    ((rc, out, err), w1) \<Rightarrow>
                      if rc = 0 then (import_environment out (environ w1), w1)
                      else setup_msvc_environment_b h w1)
            else setup_msvc_environment_b h w)
      else (environ w, w))"

definition build_cmd :: "path \<Rightarrow> string \<Rightarrow> int \<Rightarrow> string list" where
  "build_cmd build_dir bt jobs =
     [''cmake'', ''--build'', path_str build_dir, ''--parallel'', int_str jobs, ''--config'', bt]"

text \<open>\<^verbatim>\<open>build_project\<close> (lines 491 to 556).\<close>

definition build_project :: "host \<Rightarrow> path \<Rightarrow> string \<Rightarrow> int \<Rightarrow> world \<Rightarrow> bool \<times> world" where
  "build_project h build_dir bt jobs w =
     (if \<not> is_configured (fs w) build_dir then (False, w)
      else (case build_env h build_dir w of
              (e, w1) \<Rightarrow>
                (case run_tool h CMakeBuild (build_cmd build_dir bt jobs) e w1 of
                   (rc, w2) \<Rightarrow> (rc = 0, w2))))"

section \<open>\<^verbatim>\<open>build.py\<close>: \<^verbatim>\<open>main\<close>\<close>

text \<open>Lines 726 to 735: formatting on request; \<open>False\<close> is the \<^verbatim>\<open>return 1\<close>.\<close>

definition format_step :: "host \<Rightarrow> build_args \<Rightarrow> world \<Rightarrow> bool \<times> world" where
  "format_step h a w =
     (if b_format a \<and> path_exists (fs w) (h_script_dir h @ [''format.py''])
      then (case run_tool h FormatScript
                   [h_executable h, path_str (h_script_dir h @ [''format.py''])] (environ w) w of
              (rc, w1) \<Rightarrow> (rc = 0, w1))
      else (True, w))"

definition has_config_args :: "build_args \<Rightarrow> bool" where
  "has_config_args a \<longleftrightarrow>
     truthy (b_type a) \<or> truthy (b_compiler a) \<or> truthy (b_build_system a) \<or> b_core_only a
     \<or> b_build_tests a \<noteq> None \<or> b_build_examples a \<noteq> None \<or> b_use_conan a \<noteq> None \<or> b_clean a"

text \<open>
  What lines 737 to 790 settle: the arguments (the build type of a selected directory
  is written into them), the build directory, whether to configure, and the build type.
\<close>

record plan =
  p_args :: build_args
  p_build_dir :: "path option"
  p_needs_configure :: bool
  p_build_type :: string

definition initial_build_type :: "build_args \<Rightarrow> string" where
  "initial_build_type a = (if truthy (b_type a) then the (b_type a) else ''Release'')"

text \<open>Lines 770 to 790: no prompt.\<close>

definition plan_without_prompt :: "host \<Rightarrow> build_args \<Rightarrow> world \<Rightarrow> exn + plan" where
  "plan_without_prompt h a w =
     (case find_configured_build_dir (fs w) (path_parent (h_script_dir h)) of
        Inl e \<Rightarrow> Inl e
      | Inr configured_dir \<Rightarrow>
          (let needs_configure =
                 ((b_clean a \<or> configured_dir = None
                   \<or> (truthy (b_type a) \<and>
                       configured_dir \<noteq> Some (get_build_dir_b h (path_parent (h_script_dir h)) (the (b_type a)))))
                  \<or> has_config_args a)
           in Inr \<lparr>p_args = a,
                   p_build_dir = (if \<not> needs_configure then configured_dir else None),
                   p_needs_configure = needs_configure,
                   p_build_type = initial_build_type a\<rparr>))"

text \<open>Lines 757 to 768: the prompt; \<open>None\<close> is the cancelled run.\<close>

definition plan_with_prompt :: "host \<Rightarrow> build_args \<Rightarrow> world \<Rightarrow> (exn + plan option) \<times> world" where
  "plan_with_prompt h a w =
     (case select_build_dir_interactive (path_parent (h_script_dir h)) w of
        (Inl e, w1) \<Rightarrow> (Inl e, w1)
      | (Inr None, w1) \<Rightarrow> (Inr None, w1)
      | (Inr (Some (build_dir, needs_configure, selected_build_type)), w1) \<Rightarrow>
          (Inr (Some
             (if truthy selected_build_type
              then \<lparr>p_args = a\<lparr>b_type := selected_build_type\<rparr>, p_build_dir = build_dir,
                    p_needs_configure = needs_configure, p_build_type = the selected_build_type\<rparr>
              else \<lparr>p_args = a, p_build_dir = build_dir,
                    p_needs_configure = needs_configure, p_build_type = initial_build_type a\<rparr>)), w1))"

definition make_plan :: "host \<Rightarrow> build_args \<Rightarrow> world \<Rightarrow> (exn + plan option) \<times> world" where
  "make_plan h a w =
     (if \<not> has_config_args a \<and> \<not> b_skip_configure a \<and> \<not> b_no_interactive a
      then plan_with_prompt h a w
      else (case plan_without_prompt h a w of
              Inl e \<Rightarrow> (Inl e, w)
            | Inr p \<Rightarrow> (Inr (Some p), w)))"

text \<open>
  Lines 795 to 805 and 821 to 831: \<^verbatim>\<open>configure.py\<close> is run and the directory it
  configured is looked up; \<open>None\<close> is the \<^verbatim>\<open>return 1\<close>.
\<close>

definition configure_and_find ::
  "host \<Rightarrow> build_args \<Rightarrow> path option \<Rightarrow> world \<Rightarrow> (exn + path option) \<times> world" where
  "configure_and_find h a existing w =
     (case run_configure h a existing w of
        (Inl e, w1) \<Rightarrow> (Inl e, w1)
      | (Inr (False, _), w1) \<Rightarrow> (Inr None, w1)
      | (Inr (True, Some d), w1) \<Rightarrow> (Inr (Some d), w1)
      | (Inr (True, None), w1) \<Rightarrow>
          (case find_configured_build_dir (fs w1) (path_parent (h_script_dir h)) of
             Inl e \<Rightarrow> (Inl e, w1)
           | Inr d \<Rightarrow> (Inr d, w1)))"

text \<open>Lines 792 to 831: the build directory to build in; \<open>None\<close> is the \<^verbatim>\<open>return 1\<close>.\<close>

definition configure_stage :: "host \<Rightarrow> plan \<Rightarrow> world \<Rightarrow> (exn + path option) \<times> world" where
  "configure_stage h p w =
     (if \<not> b_skip_configure (p_args p) \<and> p_needs_configure p
      then configure_and_find h (p_args p) (p_build_dir p) w
      else (case p_build_dir p of
              Some d \<Rightarrow> (Inr (Some d), w)
            | None \<Rightarrow>
                (case find_configured_build_dir (fs w) (path_parent (h_script_dir h)) of
                   Inl e \<Rightarrow> (Inl e, w)
                 | Inr configured_dir \<Rightarrow>
                     (let build_dir =
                            (case configured_dir of
                               Some d \<Rightarrow> d
                             | None \<Rightarrow> get_build_dir_b h (path_parent (h_script_dir h)) (p_build_type p))
                      in if is_configured (fs w) build_dir then (Inr (Some build_dir), w)
                         else if b_skip_configure (p_args p) then (Inr None, w)
                         else configure_and_find h (p_args p) None w))))"

text \<open>Lines 842 to 852: the linter on request; its exit status is only reported.\<close>

definition lint_step :: "host \<Rightarrow> build_args \<Rightarrow> path \<Rightarrow> world \<Rightarrow> world" where
  "lint_step h a build_dir w =
     (if b_lint a \<and> path_exists (fs w) (h_script_dir h @ [''lint.py''])
      then snd (run_tool h LintScript
                  [h_executable h, path_str (h_script_dir h @ [''lint.py'']), ''--build-dir'',
                   path_str build_dir] (environ w) w)
      else w)"

text \<open>Lines 833 to 861: the build and what follows it.\<close>

definition build_stage :: "host \<Rightarrow> plan \<Rightarrow> path \<Rightarrow> world \<Rightarrow> int \<times> world" where
  "build_stage h p build_dir w =
     (case build_project h build_dir
             (if \<not> truthy (b_type (p_args p)) then detect_build_type_from_dir build_dir
              else p_build_type p)
             (b_jobs (p_args p)) w of
        (False, w1) \<Rightarrow> (1, w1)
      | (True, w1) \<Rightarrow> (0, lint_step h (p_args p) build_dir w1))"

text \<open>
  \<^verbatim>\<open>main\<close> of \<^verbatim>\<open>build.py\<close> (lines 716 to 861): the exit status, or the exception
  that ends the run.
\<close>

definition build_main :: "host \<Rightarrow> build_args \<Rightarrow> world \<Rightarrow> (exn + int) \<times> world" where
  "build_main h a w =
     (case format_step h a w of
        (False, w1) \<Rightarrow> (Inr 1, w1)
      | (True, w1) \<Rightarrow>
          (case make_plan h a w1 of
             (Inl e, w2) \<Rightarrow> (Inl e, w2)
           | (Inr None, w2) \<Rightarrow> (Inr 0, w2)
           | (Inr (Some p), w2) \<Rightarrow>
               (case configure_stage h p w2 of
                  (Inl e, w3) \<Rightarrow> (Inl e, w3)
                | (Inr None, w3) \<Rightarrow> (Inr 1, w3)
                | (Inr (Some build_dir), w3) \<Rightarrow>
                    (case build_stage h p build_dir w3 of (code, w4) \<Rightarrow> (Inr code, w4)))))"

section \<open>Notions used in the proofs\<close>

text \<open>
  The entries of the log that stand for the collaborators (the dependency installer,
  CMake and the sibling scripts), as opposed to the probes of the host.
\<close>

definition tool_runs :: "'a world_scheme \<Rightarrow> (proc \<times> int) list" where
  "tool_runs s = filter (\<lambda>e. fst e \<noteq> Vswhere \<and> fst e \<noteq> EnvScript) (spawned s)"

text \<open>
  What every step of the resolution leaves alone: the file system, the collaborators'
  log, the facts about the platform and the run, the Conan fields, and every option
  that already has a value.
\<close>

definition probe_step :: "build_config \<Rightarrow> build_config \<Rightarrow> bool" where
  "probe_step s s' \<longleftrightarrow>
     fs s' = fs s \<and> tool_runs s' = tool_runs s
     \<and> is_windows s' = is_windows s \<and> is_linux s' = is_linux s \<and> is_macos s' = is_macos s
     \<and> interactive s' = interactive s \<and> project_root s' = project_root s
     \<and> script_dir s' = script_dir s \<and> cmake_args s' = cmake_args s
     \<and> clean_build s' = clean_build s \<and> use_conan s' = use_conan s
     \<and> conan_toolchain s' = conan_toolchain s
     \<and> (truthy (build_type s) \<longrightarrow> build_type s' = build_type s)
     \<and> (core_only s \<noteq> None \<longrightarrow> core_only s' = core_only s)
     \<and> (build_tests s \<noteq> None \<longrightarrow> build_tests s' = build_tests s)
     \<and> (build_examples s \<noteq> None \<longrightarrow> build_examples s' = build_examples s)"

text \<open>A step that changes nothing of the configuration but the compiler fields.\<close>

definition compiler_step :: "build_config \<Rightarrow> build_config \<Rightarrow> bool" where
  "compiler_step s s' \<longleftrightarrow>
     fs s' = fs s \<and> tool_runs s' = tool_runs s
     \<and> world.more s' = world.more (s\<lparr>compiler := compiler s', cxx_compiler := cxx_compiler s',
                                       vs_version := vs_version s'\<rparr>)"

text \<open>A step that changes nothing of the configuration but the build system.\<close>

definition build_system_step :: "build_config \<Rightarrow> build_config \<Rightarrow> bool" where
  "build_system_step s s' \<longleftrightarrow>
     fs s' = fs s \<and> tool_runs s' = tool_runs s
     \<and> world.more s' = world.more (s\<lparr>build_system := build_system s'\<rparr>)"


text \<open>What the probes of the host report, as the statements name it.\<close>

definition has_msvc :: "host \<Rightarrow> build_config \<Rightarrow> bool" where
  "has_msvc h s = fst (fst (detect_msvc h s))"








text \<open>
  The configurations for which \<^verbatim>\<open>setup_msvc_environment\<close> of \<^verbatim>\<open>configure.py\<close>
  has something to do: Windows, Ninja (or no build system yet), and a compiler that
  needs the Visual Studio tools.
\<close>

definition bootstrap_needed :: "build_config \<Rightarrow> bool" where
  "bootstrap_needed s \<longleftrightarrow>
     is_windows s \<and> (truthy (build_system s) \<longrightarrow> str_in ''Ninja'' (the (build_system s)))
     \<and> compiler s \<in> set [Some ''msvc'', Some ''cl'', Some ''clang-cl'']"

text \<open>
  A Windows host with Visual Studio 2022 in its usual place and no \<^verbatim>\<open>vswhere\<close>. The
  compiler driver resolves once \<^verbatim>\<open>PATH\<close> is what the environment script prints.
\<close>

definition vs_output :: string where
  "vs_output = ''PATH=vc'' @ [CHR 0x0A] @ ''INCLUDE=inc''"

definition vs_host :: host where
  "vs_host =
     (example_host ''Windows'')
       \<lparr>h_which := (\<lambda>e fsys cmd. cmd = ''cl'' \<and> e ''PATH'' = Some ''vc''),
        h_capture := (\<lambda>cmd e fsys. (0, vs_output, []))\<rparr>"

definition vs_world :: world where
  "vs_world =
     \<lparr>environ = Map.empty,
      fs = [([''C:'', ''Program Files'', ''Microsoft Visual Studio'', ''2022'', ''Community''], Dir),
            ([''C:'', ''Program Files'', ''Microsoft Visual Studio'', ''2022'', ''Community'',
              ''VC'', ''Auxiliary'', ''Build'', ''vcvarsall.bat''], File [] 0)],
      stdin = [], spawned = []\<rparr>"

text \<open>An MSVC configuration on that host, before a build system is chosen.\<close>

definition vs_config :: build_config where
  "vs_config = (BuildConfig_init vs_host vs_world)\<lparr>compiler := Some ''msvc''\<rparr>"

text \<open>A work space with one configured release build, as a directory listing shows it.\<close>

definition configured_world :: world where
  "configured_world =
     \<lparr>environ = Map.empty,
      fs = [([''repo''], Dir), ([''repo'', ''build''], Dir), ([''repo'', ''build'', ''release''], Dir),
            ([''repo'', ''build'', ''release'', ''linux''], Dir),
            ([''repo'', ''build'', ''release'', ''linux'', ''CMakeCache.txt''],
             File (''CMAKE_CXX_COMPILER:FILEPATH=/usr/bin/g++'' @ [CHR 0x0A]) 1)],
      stdin = [], spawned = []\<rparr>"

text \<open>A Linux host on which GCC and Clang both resolve.\<close>

definition both_host :: host where
  "both_host =
     (example_host ''Linux'')
       \<lparr>h_which := (\<lambda>e fsys cmd. cmd \<in> set [''gcc'', ''g++'', ''clang'', ''clang++'', ''ninja'', ''cmake''])\<rparr>"

definition no_build_args :: build_args where
  "no_build_args =
     \<lparr>b_type = None, b_compiler = None, b_build_system = None, b_platform = None,
      b_core_only = False, b_build_tests = None, b_build_examples = None, b_use_conan = None,
      b_jobs = 4, b_clean = False, b_no_interactive = False, b_skip_configure = False,
      b_format = False, b_lint = False, b_cmake_args = []\<rparr>"

text \<open>
  A step that changes nothing of the configuration but the Conan fields and the request
  to clean.
\<close>

definition finish_step :: "build_config \<Rightarrow> build_config \<Rightarrow> bool" where
  "finish_step s s' \<longleftrightarrow>
     world.more s' = world.more (s\<lparr>use_conan := use_conan s', conan_toolchain := conan_toolchain s',
                                       clean_build := clean_build s'\<rparr>)"

text \<open>
  What the validation makes of a compiler or a build system named on the command line:
  the name itself, or the name the scripts use for it.
\<close>

definition compiler_resolves_to :: "bool \<Rightarrow> string option \<Rightarrow> string option \<Rightarrow> bool" where
  "compiler_resolves_to windows named resolved \<longleftrightarrow>
     resolved = named
     \<or> (windows \<and> named = Some ''cl'' \<and> resolved = Some ''msvc'')
     \<or> (windows \<and> named = Some ''clang'' \<and> resolved = Some ''clang-cl'')"

definition build_system_resolves_to :: "string option \<Rightarrow> string option \<Rightarrow> bool" where
  "build_system_resolves_to named resolved \<longleftrightarrow>
     resolved = named
     \<or> (str_lower (the named) = ''ninja'' \<and> resolved = Some ''Ninja'')
     \<or> (str_lower (the named) \<in> set [''make'', ''unix makefiles''] \<and> resolved = Some ''Unix Makefiles'')
     \<or> (str_lower (the named) \<in> set [''msbuild'', ''visual studio'']
         \<and> resolved \<in> set [Some ''Visual Studio 17 2022'', Some ''Visual Studio 16 2019'',
                             Some ''Visual Studio 15 2017''])"







section \<open>Properties of the scripts\<close>

subsection \<open>Merging the output of an environment script\<close>











subsection \<open>The build directory\<close>

lemma str_lower_choices_values:
  "str_lower ''Debug'' = ''debug''" "str_lower ''Release'' = ''release''"
  "str_lower ''RelWithDebInfo'' = ''relwithdebinfo''"
  by (simp_all add: str_lower_def lower_char_def)

lemma str_lower_choices:
  "a \<in> set build_type_choices \<Longrightarrow> b \<in> set build_type_choices \<Longrightarrow>
   str_lower a = str_lower b \<longleftrightarrow> a = b"
  unfolding build_type_choices_def using str_lower_choices_values by auto

lemma platform_name_eq:
  "get_platform_name_b h1 = get_platform_name_b h2 \<longleftrightarrow>
     h_system h1 = h_system h2
     \<or> (h_system h1 \<notin> set named_systems \<and> h_system h2 \<notin> set named_systems)"
  by (auto simp: get_platform_name_b_def named_systems_def)

lemma created_on_platform_name:
  "created_on h c \<Longrightarrow> get_platform_name c = get_platform_name_b h"
  by (simp add: created_on_def get_platform_name_def get_platform_name_b_def)

lemma BuildConfig_init_created_on: "created_on h (BuildConfig_init h w)"
  by (simp add: created_on_def BuildConfig_init_def)

text \<open>
  C9, as stated, fails for two systems that the scripts do not know by name: both get the
  platform name \<^verbatim>\<open>unknown\<close>, so that runs on FreeBSD and on SunOS with the same
  build type share one build directory, in either script.
\<close>

theorem workspace_key_counterexample:
  "h_system (example_host ''FreeBSD'') \<noteq> h_system (example_host ''SunOS'')
   \<and> get_build_dir ((BuildConfig_init (example_host ''FreeBSD'') empty_world)\<lparr>build_type := Some ''Debug''\<rparr>)
     = get_build_dir ((BuildConfig_init (example_host ''SunOS'') empty_world)\<lparr>build_type := Some ''Debug''\<rparr>)
   \<and> get_build_dir_b (example_host ''FreeBSD'') [''repo''] ''Debug''
     = get_build_dir_b (example_host ''SunOS'') [''repo''] ''Debug''"
  by (simp add: example_host_def get_build_dir_def get_build_dir_b_def get_platform_name_def
      get_platform_name_b_def BuildConfig_init_def truthy_def)

text \<open>
  C9, amended. The build directory is a function of the build type and of the platform
  the script runs on, whatever the module flags, the test and example flags and the Conan
  choice are. For two configurations of one project whose build types are among the
  values the command line admits, the directories are equal exactly when the build types
  are equal and the platforms are the same system, or are both none of Windows, Linux and
  Darwin; the same holds for \<^verbatim>\<open>get_build_dir\<close> of \<^verbatim>\<open>build.py\<close>.
\<close>

theorem workspace_key:
  assumes "created_on h1 c1" and "created_on h2 c2"
      and "build_type c1 = Some t1" and "t1 \<in> set build_type_choices"
      and "build_type c2 = Some t2" and "t2 \<in> set build_type_choices"
      and "project_root c1 = project_root c2"
  shows "(get_build_dir c1 = get_build_dir c2
            \<longleftrightarrow> t1 = t2 \<and> (h_system h1 = h_system h2
                           \<or> (h_system h1 \<notin> set named_systems \<and> h_system h2 \<notin> set named_systems)))
       \<and> (get_build_dir_b h1 root t1 = get_build_dir_b h2 root t2
            \<longleftrightarrow> t1 = t2 \<and> (h_system h1 = h_system h2
                           \<or> (h_system h1 \<notin> set named_systems \<and> h_system h2 \<notin> set named_systems)))"
proof -
  have ne: "t1 \<noteq> []" "t2 \<noteq> []"
    using assms(4,6) by (auto simp: build_type_choices_def)
  have low: "str_lower t1 = str_lower t2 \<longleftrightarrow> t1 = t2"
    using assms(4,6) by (rule str_lower_choices)
  note N = created_on_platform_name [OF assms(1)] created_on_platform_name [OF assms(2)]
  have 1: "get_build_dir c1 = get_build_dir c2
            \<longleftrightarrow> t1 = t2 \<and> get_platform_name_b h1 = get_platform_name_b h2"
    using assms(3,5,7) ne low N by (simp add: get_build_dir_def truthy_def)
  have 2: "get_build_dir_b h1 root t1 = get_build_dir_b h2 root t2
            \<longleftrightarrow> t1 = t2 \<and> get_platform_name_b h1 = get_platform_name_b h2"
    using low by (simp add: get_build_dir_b_def)
  show ?thesis unfolding 1 2 platform_name_eq by simp
qed

theorem workspace_key_witness:
  "get_build_dir ((BuildConfig_init (example_host ''Linux'') empty_world)
       \<lparr>build_type := Some ''Debug'', core_only := Some True\<rparr>)
   = get_build_dir ((BuildConfig_init (example_host ''Linux'') empty_world)
       \<lparr>build_type := Some ''Debug'', build_tests := Some True, use_conan := Some False\<rparr>)
   \<and> get_build_dir ((BuildConfig_init (example_host ''Linux'') empty_world)
       \<lparr>build_type := Some ''Debug'', core_only := Some True\<rparr>)
   \<noteq> get_build_dir ((BuildConfig_init (example_host ''Darwin'') empty_world)
       \<lparr>build_type := Some ''Debug'', core_only := Some True\<rparr>)
   \<and> get_build_dir ((BuildConfig_init (example_host ''Linux'') empty_world)
       \<lparr>build_type := Some ''Debug'', core_only := Some True\<rparr>)
   \<noteq> get_build_dir ((BuildConfig_init (example_host ''Linux'') empty_world)
       \<lparr>build_type := Some ''Release'', core_only := Some True\<rparr>)
   \<and> get_build_dir_b (example_host ''Linux'') [''repo''] ''Debug''
   \<noteq> get_build_dir_b (example_host ''Darwin'') [''repo''] ''Debug''
   \<and> get_build_dir_b (example_host ''Linux'') [''repo''] ''Debug''
   \<noteq> get_build_dir_b (example_host ''Windows'') [''repo''] ''Debug''
   \<and> get_build_dir_b (example_host ''Linux'') [''repo''] ''Debug''
   \<noteq> get_build_dir_b (example_host ''Linux'') [''repo''] ''Release''"
proof -
  let ?l = "example_host ''Linux''" and ?d = "example_host ''Darwin''" and ?w = "example_host ''Windows''"
  let ?a = "(BuildConfig_init ?l empty_world)\<lparr>build_type := Some ''Debug'', core_only := Some True\<rparr>"
  let ?b = "(BuildConfig_init ?l empty_world)
       \<lparr>build_type := Some ''Debug'', build_tests := Some True, use_conan := Some False\<rparr>"
  let ?c = "(BuildConfig_init ?d empty_world)\<lparr>build_type := Some ''Debug'', core_only := Some True\<rparr>"
  let ?r = "(BuildConfig_init ?l empty_world)\<lparr>build_type := Some ''Release'', core_only := Some True\<rparr>"
  let ?e = "(BuildConfig_init ?w empty_world)\<lparr>build_type := Some ''Debug'', core_only := Some True\<rparr>"
  have ch: "''Debug'' \<in> set build_type_choices" "''Release'' \<in> set build_type_choices"
    by (simp_all add: build_type_choices_def)
  have on: "created_on ?l ?a" "created_on ?l ?b" "created_on ?d ?c" "created_on ?l ?r" "created_on ?w ?e"
    by (simp_all add: created_on_def BuildConfig_init_def)
  have sys: "h_system ?l = ''Linux''" "h_system ?d = ''Darwin''" "h_system ?w = ''Windows''"
    by (simp_all add: example_host_def)
  have roots: "project_root ?a = project_root ?b" "project_root ?a = project_root ?c"
    "project_root ?a = project_root ?r" "project_root ?a = project_root ?e"
    by (simp_all add: BuildConfig_init_def example_host_def)
  have 1: "get_build_dir ?a = get_build_dir ?b"
    using workspace_key [OF on(1) on(2) _ ch(1) _ ch(1) roots(1)] by simp
  have 2: "get_build_dir ?a \<noteq> get_build_dir ?c
         \<and> get_build_dir_b ?l [''repo''] ''Debug'' \<noteq> get_build_dir_b ?d [''repo''] ''Debug''"
    using workspace_key [OF on(1) on(3) _ ch(1) _ ch(1) roots(2), of "[''repo'']"] sys
    by (simp add: named_systems_def)
  have 3: "get_build_dir ?a \<noteq> get_build_dir ?r
         \<and> get_build_dir_b ?l [''repo''] ''Debug'' \<noteq> get_build_dir_b ?l [''repo''] ''Release''"
    using workspace_key [OF on(1) on(4) _ ch(1) _ ch(2) roots(3), of "[''repo'']"] by simp
  have 4: "get_build_dir_b ?l [''repo''] ''Debug'' \<noteq> get_build_dir_b ?w [''repo''] ''Debug''"
    using workspace_key [OF on(1) on(5) _ ch(1) _ ch(1) roots(4), of "[''repo'']"] sys
    by (simp add: named_systems_def)
  from 1 2 3 4 show ?thesis by blast
qed

subsection \<open>What the steps of the resolution leave alone\<close>

lemma compiler_step_fields:
  "compiler_step s s' \<Longrightarrow>
     fs s' = fs s \<and> tool_runs s' = tool_runs s \<and>
     build_type s' = build_type s \<and> build_system s' = build_system s
     \<and> core_only s' = core_only s \<and> build_tests s' = build_tests s
     \<and> build_examples s' = build_examples s \<and> use_conan s' = use_conan s \<and> interactive s' = interactive s
     \<and> is_windows s' = is_windows s \<and> is_linux s' = is_linux s \<and> is_macos s' = is_macos s
     \<and> project_root s' = project_root s \<and> script_dir s' = script_dir s \<and> clean_build s' = clean_build s
     \<and> conan_toolchain s' = conan_toolchain s \<and> cmake_args s' = cmake_args s"
  unfolding compiler_step_def by (cases s, cases s') simp

lemma compiler_step_refl [simp]: "compiler_step s s"
  unfolding compiler_step_def by simp

lemma compiler_step_trans: "compiler_step s t \<Longrightarrow> compiler_step t u \<Longrightarrow> compiler_step s u"
  unfolding compiler_step_def by (cases s, cases t, cases u) simp

lemma compiler_step_probe: "compiler_step s s' \<Longrightarrow> probe_step s s'"
  using compiler_step_fields [of s s'] by (simp add: probe_step_def)

lemma tool_runs_upd [simp]:
  "tool_runs (s\<lparr>environ := e\<rparr>) = tool_runs s"
  "tool_runs (s\<lparr>stdin := i\<rparr>) = tool_runs s"
  "tool_runs (s\<lparr>fs := f\<rparr>) = tool_runs s"
  by (simp_all add: tool_runs_def)

lemma tool_runs_more [simp]:
  "tool_runs (s\<lparr>compiler := c\<rparr>) = tool_runs (s::build_config)"
  "tool_runs (s\<lparr>cxx_compiler := c\<rparr>) = tool_runs s"
  "tool_runs (s\<lparr>vs_version := c\<rparr>) = tool_runs s"
  "tool_runs (s\<lparr>build_system := c\<rparr>) = tool_runs s"
  "tool_runs (s\<lparr>build_type := c\<rparr>) = tool_runs s"
  "tool_runs (s\<lparr>core_only := b\<rparr>) = tool_runs s"
  "tool_runs (s\<lparr>build_tests := b\<rparr>) = tool_runs s"
  "tool_runs (s\<lparr>build_examples := b\<rparr>) = tool_runs s"
  "tool_runs (s\<lparr>use_conan := b\<rparr>) = tool_runs s"
  "tool_runs (s\<lparr>conan_toolchain := t\<rparr>) = tool_runs s"
  "tool_runs (s\<lparr>clean_build := cb\<rparr>) = tool_runs s"
  by (simp_all add: tool_runs_def)

lemma run_capture_probe:
  "p = Vswhere \<or> p = EnvScript \<Longrightarrow> run_capture h p cmd e s = (r, s') \<Longrightarrow>
     s' = s\<lparr>spawned := spawned s @ [(p, fst r)]\<rparr> \<and> tool_runs s' = tool_runs s \<and> r = h_capture h cmd e (fs s)"
  by (auto simp: run_capture_def tool_runs_def)

lemma detect_msvc_step:
  "detect_msvc h s = (r, s') \<Longrightarrow> compiler_step s s' \<and> environ s' = environ s \<and> stdin s' = stdin s
     \<and> compiler s' = compiler s \<and> cxx_compiler s' = cxx_compiler s \<and> vs_version s' = vs_version s"
  by (auto simp: detect_msvc_def run_capture_def tool_runs_def compiler_step_def split: prod.splits if_splits)

lemma try_clang_cl_dirs_step:
  "try_clang_cl_dirs h ds s = (r, s') \<Longrightarrow> compiler_step s s' \<and> stdin s' = stdin s \<and> spawned s' = spawned s
     \<and> compiler s' = compiler s \<and> cxx_compiler s' = cxx_compiler s \<and> vs_version s' = vs_version s"
proof (induction h ds s rule: try_clang_cl_dirs.induct)
  case (1 h s)
  then show ?case by auto
next
  case (2 h d ds s)
  show ?case
  proof (cases "path_exists (fs s) (d @ [''clang-cl.exe''])")
    case False
    with 2 show ?thesis by simp
  next
    case True
    show ?thesis
    proof (cases "environ s ''PATH''")
      case None
      with True 2 show ?thesis by auto
    next
      case (Some old)
      let ?t = "s\<lparr>environ := (environ s)(''PATH'' \<mapsto> path_str d @ '';'' @ old)\<rparr>"
      have st: "compiler_step s ?t" by (simp add: compiler_step_def)
      show ?thesis
      proof (cases "check_command h ?t ''clang-cl''")
        case c: True
        with True Some 2(3) have "s' = ?t" by simp
        then show ?thesis by (simp add: compiler_step_def)
      next
        case c: False
        with True Some 2(3) have rec: "try_clang_cl_dirs h ds ?t = (r, s')" by simp
        from 2(1) [OF True Some c rec] st show ?thesis
          by (auto intro: compiler_step_trans)
      qed
    qed
  qed
qed

lemma setup_clang_cl_path_step:
  assumes "setup_clang_cl_path h s = (r, s')"
  shows "compiler_step s s' \<and> stdin s' = stdin s \<and> spawned s' = spawned s
     \<and> compiler s' = compiler s \<and> cxx_compiler s' = cxx_compiler s \<and> vs_version s' = vs_version s"
proof (cases "\<not> is_windows s \<or> check_command h s ''clang-cl''")
  case True
  with assms show ?thesis by (auto simp: setup_clang_cl_path_def split: if_splits)
next
  case False
  obtain r1 s1 where a: "try_clang_cl_dirs h (clang_paths (fs s)) s = (r1, s1)" by fastforce
  obtain r2 s2 where b: "try_clang_cl_dirs h llvm_paths s1 = (r2, s2)" by fastforce
  from assms False a b have "s' = s1 \<or> s' = s2"
    by (auto simp: setup_clang_cl_path_def split: sum.splits bool.splits)
  with try_clang_cl_dirs_step [OF a] try_clang_cl_dirs_step [OF b] show ?thesis
    by (auto intro: compiler_step_trans)
qed

lemma detect_clang_step:
  assumes "detect_clang h s = (r, s')"
  shows "compiler_step s s' \<and> stdin s' = stdin s \<and> spawned s' = spawned s
     \<and> compiler s' = compiler s \<and> cxx_compiler s' = cxx_compiler s \<and> vs_version s' = vs_version s"
proof (cases "is_windows s \<and> \<not> check_command h s ''clang-cl''")
  case False
  with assms show ?thesis by (auto simp: detect_clang_def split: if_splits)
next
  case True
  obtain r1 s1 where a: "setup_clang_cl_path h s = (r1, s1)" by fastforce
  from assms True a have "s' = s1"
    by (auto simp: detect_clang_def split: sum.splits if_splits)
  with setup_clang_cl_path_step [OF a] show ?thesis by simp
qed

lemma input_step:
  "input s = (r, s') \<Longrightarrow> compiler_step s s' \<and> environ s' = environ s \<and> spawned s' = spawned s
     \<and> compiler s' = compiler s \<and> cxx_compiler s' = cxx_compiler s \<and> vs_version s' = vs_version s"
  by (auto simp: input_def compiler_step_def split: list.splits input_event.splits)

lemma use_steps [simp]:
  "compiler_step s (use_msvc s)" "compiler_step s (use_gcc s)" "compiler_step s (use_clang s)"
  "compiler_step s (use_clang_cl s)" "compiler_step s (use_clang_variant v s)"
  "compiler_step s (s\<lparr>cxx_compiler := c\<rparr>)" "compiler_step s (s\<lparr>vs_version := vv\<rparr>)"
  "compiler_step s (s\<lparr>compiler := a, cxx_compiler := c\<rparr>)"
  by (simp_all add: compiler_step_def use_msvc_def use_gcc_def use_clang_def use_clang_cl_def
      use_clang_variant_def)

lemma use_after [simp]:
  "compiler_step s t \<Longrightarrow> compiler_step s (use_msvc t)"
  "compiler_step s t \<Longrightarrow> compiler_step s (use_gcc t)"
  "compiler_step s t \<Longrightarrow> compiler_step s (use_clang t)"
  "compiler_step s t \<Longrightarrow> compiler_step s (use_clang_cl t)"
  "compiler_step s t \<Longrightarrow> compiler_step s (use_clang_variant v t)"
  "compiler_step s t \<Longrightarrow> compiler_step s (t\<lparr>cxx_compiler := c\<rparr>)"
  "compiler_step s t \<Longrightarrow> compiler_step s (t\<lparr>vs_version := vv\<rparr>)"
  by (erule compiler_step_trans, simp)+

lemma select_compiler_interactive_step:
  assumes "select_compiler_interactive h s = (r, s')"
  shows "compiler_step s s'"
proof -
  obtain m s1 where a: "detect_msvc h s = (m, s1)" by fastforce
  obtain c s2 where b: "detect_clang h s1 = (c, s2)" by fastforce
  obtain i s3 where d: "input s2 = (i, s3)" by fastforce
  obtain c' t2 where b': "detect_clang h s = (c', t2)" by fastforce
  obtain i' t3 where d': "input t2 = (i', t3)" by fastforce
  have 1: "compiler_step s s1" using detect_msvc_step [OF a] by simp
  have 2: "compiler_step s s2" using 1 detect_clang_step [OF b] by (blast intro: compiler_step_trans)
  have 3: "compiler_step s s3" using 2 input_step [OF d] by (blast intro: compiler_step_trans)
  have two: "compiler_step s t2" using detect_clang_step [OF b'] by simp
  have three: "compiler_step s t3" using two input_step [OF d'] by (blast intro: compiler_step_trans)
  from assms a b d b' d' 1 2 3 two three show ?thesis
    unfolding select_compiler_interactive_def
    by (auto split: if_splits sum.splits prod.splits)
qed

lemma validate_compiler_step:
  assumes "validate_compiler h s = (r, s')"
  shows "compiler_step s s' \<and> stdin s' = stdin s"
proof -
  obtain m s1 where a: "detect_msvc h s = (m, s1)" by fastforce
  obtain p t1 where b: "setup_clang_cl_path h s = (p, t1)" by fastforce
  obtain c t2 where d: "detect_clang h t1 = (c, t2)" by fastforce
  obtain c' u2 where e: "detect_clang h s = (c', u2)" by fastforce
  note A = detect_msvc_step [OF a]
  note B = setup_clang_cl_path_step [OF b]
  note D = detect_clang_step [OF d]
  note E = detect_clang_step [OF e]
  have 1: "compiler_step s s1" "compiler_step s t1" "compiler_step s u2"
    using A B E by simp_all
  have 2: "compiler_step s t2" using 1 D by (blast intro: compiler_step_trans)
  have io: "stdin s1 = stdin s" "stdin t1 = stdin s" "stdin u2 = stdin s" "stdin t2 = stdin s"
    using A B D E by simp_all
  have [simp]: "\<And>t. stdin (use_msvc t) = stdin t" "\<And>t. stdin (use_clang t) = stdin t"
    "\<And>t. stdin (use_clang_cl t) = stdin t"
    by (simp_all add: use_msvc_def use_clang_def use_clang_cl_def)
  from assms a b d e 1 2 io show ?thesis
    unfolding validate_compiler_def
    by (auto split: if_splits sum.splits prod.splits)
qed

lemma autodetect_compiler_step:
  assumes "autodetect_compiler h s = (r, s')"
  shows "compiler_step s s' \<and> stdin s' = stdin s"
proof -
  obtain m s1 where a: "detect_msvc h s = (m, s1)" by fastforce
  obtain c s2 where b: "detect_clang h s1 = (c, s2)" by fastforce
  obtain c' u2 where e: "detect_clang h s = (c', u2)" by fastforce
  note A = detect_msvc_step [OF a]
  note B = detect_clang_step [OF b]
  note E = detect_clang_step [OF e]
  have 1: "compiler_step s s1" "compiler_step s u2" using A E by simp_all
  have 2: "compiler_step s s2" using 1 B by (blast intro: compiler_step_trans)
  have io: "stdin s1 = stdin s" "stdin s2 = stdin s" "stdin u2 = stdin s"
    using A B E by simp_all
  have [simp]: "\<And>t. stdin (use_msvc t) = stdin t" "\<And>t. stdin (use_clang t) = stdin t"
    "\<And>t. stdin (use_clang_cl t) = stdin t" "\<And>t. stdin (use_gcc t) = stdin t"
    "\<And>t v. stdin (use_clang_variant v t) = stdin t"
    by (simp_all add: use_msvc_def use_clang_def use_clang_cl_def use_gcc_def use_clang_variant_def)
  from assms a b e 1 2 io show ?thesis
    unfolding autodetect_compiler_def
    by (auto split: if_splits sum.splits prod.splits)
qed

lemma setup_compiler_step:
  assumes "setup_compiler h s = (r, s')"
  shows "compiler_step s s'"
proof (cases "truthy (compiler s)")
  case True
  with assms validate_compiler_step [of h s r s'] show ?thesis by (simp add: setup_compiler_def)
next
  case False
  define cache where "cache = read_cmake_cache (fs s) (get_build_dir s)"
  define hit where "hit = (if cache \<noteq> [] \<and> map_of cache ''CMAKE_CXX_COMPILER'' \<noteq> None
      then cached_compiler (is_windows s) (the (map_of cache ''CMAKE_CXX_COMPILER'')) else None)"
  define s1 where "s1 = (case hit of Some (c, cx) \<Rightarrow> s\<lparr>compiler := Some c, cxx_compiler := Some cx\<rparr> | None \<Rightarrow> s)"
  have st: "compiler_step s s1" by (simp add: s1_def split: option.splits)
  from assms False have "s' = s1 \<or> select_compiler_interactive h s1 = (r, s') \<or> autodetect_compiler h s1 = (r, s')"
    by (auto simp: setup_compiler_def Let_def cache_def hit_def s1_def split: if_splits)
  with st select_compiler_interactive_step [of h s1 r s'] autodetect_compiler_step [of h s1 r s']
  show ?thesis by (blast intro: compiler_step_trans)
qed

lemma build_system_step_fields:
  "build_system_step s s' \<Longrightarrow>
     fs s' = fs s \<and> tool_runs s' = tool_runs s \<and>
     build_type s' = build_type s \<and> compiler s' = compiler s \<and> cxx_compiler s' = cxx_compiler s
     \<and> vs_version s' = vs_version s
     \<and> core_only s' = core_only s \<and> build_tests s' = build_tests s
     \<and> build_examples s' = build_examples s \<and> use_conan s' = use_conan s \<and> interactive s' = interactive s
     \<and> is_windows s' = is_windows s \<and> is_linux s' = is_linux s \<and> is_macos s' = is_macos s
     \<and> project_root s' = project_root s \<and> script_dir s' = script_dir s \<and> clean_build s' = clean_build s
     \<and> conan_toolchain s' = conan_toolchain s \<and> cmake_args s' = cmake_args s"
  unfolding build_system_step_def by (cases s, cases s') simp

lemma build_system_step_refl [simp]: "build_system_step s s"
  unfolding build_system_step_def by simp

lemma build_system_step_trans:
  "build_system_step s t \<Longrightarrow> build_system_step t u \<Longrightarrow> build_system_step s u"
  unfolding build_system_step_def by (cases s, cases t, cases u) simp

lemma build_system_step_probe: "build_system_step s s' \<Longrightarrow> probe_step s s'"
  using build_system_step_fields [of s s'] by (simp add: probe_step_def)

lemma build_system_after [simp]:
  "build_system_step s t \<Longrightarrow> build_system_step s (t\<lparr>build_system := b\<rparr>)"
  by (erule build_system_step_trans, simp add: build_system_step_def)

lemma detect_msvc_build_system_step:
  "detect_msvc h s = (r, s') \<Longrightarrow> build_system_step s s' \<and> environ s' = environ s \<and> stdin s' = stdin s"
  by (auto simp: detect_msvc_def run_capture_def tool_runs_def build_system_step_def
      split: prod.splits if_splits)

lemma input_build_system_step:
  "input s = (r, s') \<Longrightarrow> build_system_step s s' \<and> environ s' = environ s"
  by (auto simp: input_def build_system_step_def split: list.splits input_event.splits)

lemma detect_msbuild_step:
  assumes "detect_msbuild h s = (r, s')"
  shows "build_system_step s s' \<and> environ s' = environ s \<and> stdin s' = stdin s"
proof -
  obtain m s1 where a: "detect_msvc h s = (m, s1)" by fastforce
  from assms a detect_msvc_build_system_step [OF a] show ?thesis
    unfolding detect_msbuild_def by (auto split: if_splits prod.splits)
qed

lemma select_build_system_interactive_step:
  assumes "select_build_system_interactive h s = (r, s')"
  shows "build_system_step s s' \<and> environ s' = environ s"
proof -
  obtain m s1 where a: "detect_msbuild h s = (m, s1)" by fastforce
  obtain i s2 where b: "input s1 = (i, s2)" by fastforce
  obtain j t1 where c: "input s = (j, t1)" by fastforce
  note A = detect_msbuild_step [OF a]
  note B = input_build_system_step [OF b]
  note C = input_build_system_step [OF c]
  have 1: "build_system_step s s1" "build_system_step s t1" using A C by simp_all
  have 2: "build_system_step s s2" using 1 B by (blast intro: build_system_step_trans)
  have e: "environ s1 = environ s" "environ s2 = environ s" "environ t1 = environ s"
    using A B C by simp_all
  from assms a b c 1 2 e show ?thesis
    unfolding select_build_system_interactive_def
    by (auto split: if_splits sum.splits prod.splits)
qed

lemma validate_build_system_step:
  assumes "validate_build_system h s = (r, s')"
  shows "build_system_step s s' \<and> environ s' = environ s \<and> stdin s' = stdin s"
proof -
  obtain m s1 where a: "detect_msbuild h s = (m, s1)" by fastforce
  from assms a detect_msbuild_step [OF a] show ?thesis
    unfolding validate_build_system_def Let_def
    by (auto split: if_splits prod.splits)
qed

lemma autodetect_build_system_step:
  assumes "autodetect_build_system h s = (r, s')"
  shows "build_system_step s s' \<and> environ s' = environ s \<and> stdin s' = stdin s"
proof -
  obtain m s1 where a: "detect_msbuild h s = (m, s1)" by fastforce
  from assms a detect_msbuild_step [OF a] show ?thesis
    unfolding autodetect_build_system_def
    by (auto split: if_splits prod.splits)
qed

lemma setup_build_system_step:
  assumes "setup_build_system h s = (r, s')"
  shows "build_system_step s s' \<and> environ s' = environ s"
proof -
  obtain a t where v: "validate_build_system h s = (a, t)" by fastforce
  obtain b u where w: "autodetect_build_system h s = (b, u)" by fastforce
  from assms v w validate_build_system_step [OF v] autodetect_build_system_step [OF w]
    select_build_system_interactive_step [of h s r s']
  show ?thesis unfolding setup_build_system_def by (auto split: if_splits)
qed

lemma locate_vs_step:
  "locate_vs h s = (r, s') \<Longrightarrow>
     (s' = s \<or> (\<exists>rc. s' = s\<lparr>spawned := spawned s @ [(Vswhere, rc)]\<rparr>))"
  by (auto simp: locate_vs_def run_capture_def split: if_splits prod.splits)

lemma setup_msvc_environment_step:
  assumes "setup_msvc_environment h s = (r, s')"
  shows "world.more s' = world.more s \<and> fs s' = fs s \<and> stdin s' = stdin s \<and> tool_runs s' = tool_runs s"
proof -
  obtain v s1 where a: "locate_vs h s = (v, s1)" by fastforce
  from locate_vs_step [OF a]
  have 1: "world.more s1 = world.more s \<and> fs s1 = fs s \<and> stdin s1 = stdin s \<and> tool_runs s1 = tool_runs s"
    by (auto simp: tool_runs_def)
  from assms a 1 show ?thesis
    unfolding setup_msvc_environment_def
    by (auto simp: run_capture_def tool_runs_def split: if_splits prod.splits option.splits sum.splits)
qed

lemma probe_step_refl [simp]: "probe_step s s"
  by (simp add: probe_step_def)

lemma probe_step_trans: "probe_step s t \<Longrightarrow> probe_step t u \<Longrightarrow> probe_step s u"
  unfolding probe_step_def truthy_def by (elim conjE, intro conjI) auto

lemma msvc_environment_step_step:
  assumes "msvc_environment_step h s = (r, s')"
  shows "world.more s' = world.more s \<and> fs s' = fs s \<and> stdin s' = stdin s \<and> tool_runs s' = tool_runs s"
proof -
  obtain a t where v: "setup_msvc_environment h s = (a, t)" by fastforce
  from assms v setup_msvc_environment_step [OF v] show ?thesis
    by (auto simp: msvc_environment_step_def split: sum.splits)
qed

lemma more_probe:
  "world.more s' = world.more (s::build_config) \<Longrightarrow> fs s' = fs s \<Longrightarrow> tool_runs s' = tool_runs s \<Longrightarrow> probe_step s s'"
  unfolding probe_step_def by (cases s, cases s') simp

lemma more_fields:
  "world.more s' = world.more (s::build_config) \<Longrightarrow>
     compiler s' = compiler s \<and> build_type s' = build_type s \<and> build_system s' = build_system s
     \<and> cxx_compiler s' = cxx_compiler s \<and> core_only s' = core_only s \<and> build_tests s' = build_tests s
     \<and> build_examples s' = build_examples s \<and> use_conan s' = use_conan s \<and> interactive s' = interactive s
     \<and> is_windows s' = is_windows s \<and> is_linux s' = is_linux s \<and> is_macos s' = is_macos s
     \<and> project_root s' = project_root s \<and> script_dir s' = script_dir s \<and> clean_build s' = clean_build s
     \<and> conan_toolchain s' = conan_toolchain s \<and> cmake_args s' = cmake_args s \<and> vs_version s' = vs_version s"
  by (cases s, cases s') simp

lemma ask_yes_no_step:
  "ask_yes_no d s = (b, s') \<Longrightarrow> s' = s\<lparr>stdin := stdin s'\<rparr>"
  by (auto simp: ask_yes_no_def)

lemma select_tests_and_examples_interactive_step:
  "probe_step s (select_tests_and_examples_interactive s)
   \<and> environ (select_tests_and_examples_interactive s) = environ s
   \<and> spawned (select_tests_and_examples_interactive s) = spawned s
   \<and> compiler (select_tests_and_examples_interactive s) = compiler s
   \<and> build_system (select_tests_and_examples_interactive s) = build_system s
   \<and> build_type (select_tests_and_examples_interactive s) = build_type s
   \<and> core_only (select_tests_and_examples_interactive s) = core_only s"
  by (simp add: select_tests_and_examples_interactive_def ask_yes_no_def probe_step_def Let_def
      tool_runs_def split: prod.splits)

lemma select_modules_interactive_step:
  "select_modules_interactive s = (r, s') \<Longrightarrow>
     (core_only s = None \<longrightarrow> probe_step s s') \<and> environ s' = environ s \<and> spawned s' = spawned s
     \<and> compiler s' = compiler s \<and> build_system s' = build_system s \<and> build_type s' = build_type s
     \<and> build_tests s' = build_tests s \<and> build_examples s' = build_examples s
     \<and> fs s' = fs s"
  by (auto simp: select_modules_interactive_def input_def probe_step_def tool_runs_def
      split: list.splits input_event.splits if_splits)

lemma select_build_type_interactive_step:
  "select_build_type_interactive s = (r, s') \<Longrightarrow>
     (\<not> truthy (build_type s) \<longrightarrow> probe_step s s') \<and> environ s' = environ s \<and> spawned s' = spawned s
     \<and> compiler s' = compiler s \<and> build_system s' = build_system s \<and> fs s' = fs s"
  by (auto simp: select_build_type_interactive_def input_def probe_step_def tool_runs_def
      split: list.splits input_event.splits if_splits)

lemma interactive_selections_step:
  assumes "interactive_selections s = (r, s')"
  shows "probe_step s s' \<and> environ s' = environ s \<and> spawned s' = spawned s
     \<and> compiler s' = compiler s \<and> build_system s' = build_system s"
proof -
  obtain a s1 where m: "(if core_only s = None then select_modules_interactive s else (Inr (), s)) = (a, s1)"
    by fastforce
  define s2 where "s2 = select_tests_and_examples_interactive s1"
  obtain b s3 where t: "select_build_type_interactive s2 = (b, s3)" by fastforce
  have 1: "probe_step s s1 \<and> environ s1 = environ s \<and> spawned s1 = spawned s
     \<and> compiler s1 = compiler s \<and> build_system s1 = build_system s"
    using m select_modules_interactive_step [of s a s1] by (auto split: if_splits)
  have 2: "probe_step s s2 \<and> environ s2 = environ s \<and> spawned s2 = spawned s
     \<and> compiler s2 = compiler s \<and> build_system s2 = build_system s"
    using 1 select_tests_and_examples_interactive_step [of s1] unfolding s2_def
    by (auto intro: probe_step_trans)
  have 3: "\<not> truthy (build_type s2) \<Longrightarrow> probe_step s s3 \<and> environ s3 = environ s \<and> spawned s3 = spawned s
     \<and> compiler s3 = compiler s \<and> build_system s3 = build_system s"
    using 2 select_build_type_interactive_step [OF t] by (auto intro: probe_step_trans)
  from assms m t have "s' = s1 \<or> s' = s2 \<or> (\<not> truthy (build_type s2) \<and> s' = s3)"
    unfolding interactive_selections_def s2_def by (auto split: sum.splits if_splits)
  with 1 2 3 show ?thesis by blast
qed

lemma noninteractive_defaults_step:
  "probe_step s (noninteractive_defaults s) \<and> environ (noninteractive_defaults s) = environ s
     \<and> spawned (noninteractive_defaults s) = spawned s \<and> stdin (noninteractive_defaults s) = stdin s
     \<and> compiler (noninteractive_defaults s) = compiler s
     \<and> build_system (noninteractive_defaults s) = build_system s"
  by (simp add: noninteractive_defaults_def probe_step_def tool_runs_def)

lemma toolchain_steps_step:
  assumes "toolchain_steps h s = (r, s')"
  shows "probe_step s s'"
proof -
  obtain a s1 where 1: "(if interactive s \<and> \<not> truthy (compiler s) then select_compiler_interactive h s
            else (Inr True, s)) = (a, s1)" by fastforce
  obtain b s2 where 2: "setup_compiler h s1 = (b, s2)" by fastforce
  obtain c s3 where 3: "(if interactive s2 \<and> \<not> truthy (build_system s2)
                      then select_build_system_interactive h s2 else (Inr True, s2)) = (c, s3)" by fastforce
  obtain d s4 where 4: "setup_build_system h s3 = (d, s4)" by fastforce
  obtain e s5 where 5: "msvc_environment_step h s4 = (e, s5)" by fastforce
  have p1: "probe_step s s1"
    using 1 select_compiler_interactive_step [of h s a s1]
    by (auto split: if_splits intro: compiler_step_probe)
  have p2: "probe_step s s2"
    using p1 setup_compiler_step [OF 2] by (blast intro: probe_step_trans compiler_step_probe)
  have p3: "probe_step s s3"
    using p2 3 select_build_system_interactive_step [of h s2 c s3]
    by (auto split: if_splits intro: probe_step_trans build_system_step_probe)
  have p4: "probe_step s s4"
    using p3 setup_build_system_step [OF 4] by (blast intro: probe_step_trans build_system_step_probe)
  have p5: "probe_step s s5"
    using p4 msvc_environment_step_step [OF 5] by (blast intro: probe_step_trans more_probe)
  from assms 1 2 3 4 5 have "s' = s1 \<or> s' = s2 \<or> s' = s3 \<or> s' = s4 \<or> s' = s5"
    unfolding toolchain_steps_def by (auto split: sum.splits bool.splits)
  with p1 p2 p3 p4 p5 show ?thesis by blast
qed

lemma resolve_step:
  assumes "resolve h s = (r, s')"
  shows "probe_step s s'"
proof (cases "interactive s")
  case False
  with assms have "toolchain_steps h (noninteractive_defaults s) = (r, s')"
    by (simp add: resolve_def)
  from toolchain_steps_step [OF this] noninteractive_defaults_step [of s]
  show ?thesis by (blast intro: probe_step_trans)
next
  case True
  obtain a s1 where 1: "interactive_selections s = (a, s1)" by fastforce
  from True assms 1 have "s' = s1 \<or> toolchain_steps h s1 = (r, s')"
    by (auto simp: resolve_def split: sum.splits)
  with interactive_selections_step [OF 1] toolchain_steps_step [of h s1 r s']
  show ?thesis by (blast intro: probe_step_trans)
qed

subsection \<open>Reading the cache\<close>



subsection \<open>Detection without a prompt\<close>












subsection \<open>The cached compiler\<close>
















text \<open>
  One value that names more than one compiler is the path of Clang's C++ driver: it
  holds \<^verbatim>\<open>g++\<close>, which line 774 tests first, and is read as GCC.
\<close>

lemma cached_clang_driver:
  "cached_compiler windows ''/usr/bin/clang++'' = Some (''gcc'', ''g++'')"
  by (simp add: cached_compiler_def)

subsection \<open>Validation of a named compiler\<close>
















subsection \<open>Importing the Visual Studio environment twice\<close>

lemma msvc_tools_visible_cong:
  "environ t = environ s \<Longrightarrow> fs t = fs s \<Longrightarrow> compiler t = compiler s \<Longrightarrow>
     msvc_tools_visible h t = msvc_tools_visible h s"
  by (simp add: msvc_tools_visible_def check_command_def)

lemma setup_msvc_environment_idem:
  assumes "setup_msvc_environment h s = (Inr True, s')"
  shows "setup_msvc_environment h s' = (Inr True, s') \<and> (bootstrap_needed s \<longrightarrow> msvc_tools_visible h s')"
proof -
  note F = setup_msvc_environment_step [OF assms]
  note M = more_fields [of s' s]
  have same: "is_windows s' = is_windows s" "build_system s' = build_system s" "compiler s' = compiler s"
    using F M by simp_all
  show ?thesis
  proof (cases "bootstrap_needed s")
    case False
    then have early: "\<not> is_windows s \<or> (truthy (build_system s) \<and> \<not> str_in ''Ninja'' (the (build_system s)))
        \<or> compiler s \<notin> set [Some ''msvc'', Some ''cl'', Some ''clang-cl'']"
      by (auto simp: bootstrap_needed_def)
    then have "setup_msvc_environment h s' = (Inr True, s')"
      unfolding setup_msvc_environment_def same by auto
    with False show ?thesis by simp
  next
    case True
    then have need: "is_windows s" "\<not> (truthy (build_system s) \<and> \<not> str_in ''Ninja'' (the (build_system s)))"
        "\<not> compiler s \<notin> set [Some ''msvc'', Some ''cl'', Some ''clang-cl'']"
      by (auto simp: bootstrap_needed_def)
    have vis: "msvc_tools_visible h s'"
    proof (cases "msvc_tools_visible h s")
      case v: True
      with assms need have "s' = s"
        by (auto simp: setup_msvc_environment_def split: if_splits)
      with v show ?thesis by simp
    next
      case v: False
      obtain p s1 where l: "locate_vs h s = (p, s1)" by fastforce
      from assms need v l show ?thesis
        unfolding setup_msvc_environment_def
        by (auto simp: run_capture_def split: if_splits option.splits prod.splits sum.splits)
    qed
    have "setup_msvc_environment h s' = (Inr True, s')"
      unfolding setup_msvc_environment_def same using need vis by auto
    with vis show ?thesis by simp
  qed
qed

lemma locate_vs_repeat:
  assumes "environ t = environ (s::world)" "fs t = fs s"
  shows "fst (locate_vs h t) = fst (locate_vs h s)
       \<and> (\<exists>l. snd (locate_vs h s) = s\<lparr>spawned := spawned s @ l\<rparr>
              \<and> snd (locate_vs h t) = t\<lparr>spawned := spawned t @ l\<rparr>)"
proof (cases "path_exists (fs s) (vswhere_path_of s)")
  case False
  have p: "vswhere_path_of t = vswhere_path_of s" using assms by (simp add: vswhere_path_of_def)
  from False have "locate_vs h s = (common_vs_path (fs s), s)" "locate_vs h t = (common_vs_path (fs s), t)"
    using assms p by (simp_all add: locate_vs_def)
  then show ?thesis by (auto intro: exI [of _ "[]"])
next
  case True
  define r where "r = h_capture h (path_str (vswhere_path_of s) # vswhere_args) (environ s) (fs s)"
  have p: "vswhere_path_of t = vswhere_path_of s" using assms by (simp add: vswhere_path_of_def)
  have a: "snd (locate_vs h s) = s\<lparr>spawned := spawned s @ [(Vswhere, fst r)]\<rparr>"
    using True by (simp add: locate_vs_def run_capture_def r_def split: prod.splits)
  have b: "snd (locate_vs h t) = t\<lparr>spawned := spawned t @ [(Vswhere, fst r)]\<rparr>"
    using True assms p by (simp add: locate_vs_def run_capture_def r_def split: prod.splits)
  have c: "fst (locate_vs h t) = fst (locate_vs h s)"
    using True assms p by (simp add: locate_vs_def run_capture_def split: prod.splits)
  from a b c show ?thesis by blast
qed

lemma setup_msvc_environment_b_repeat:
  assumes "environ t = environ (s::world)" "fs t = fs s"
  shows "fst (setup_msvc_environment_b h t) = fst (setup_msvc_environment_b h s)
       \<and> (\<exists>l. snd (setup_msvc_environment_b h s) = s\<lparr>spawned := spawned s @ l\<rparr>
              \<and> snd (setup_msvc_environment_b h t) = t\<lparr>spawned := spawned t @ l\<rparr>)"
proof -
  obtain l where L: "snd (locate_vs h s) = s\<lparr>spawned := spawned s @ l\<rparr>"
      "snd (locate_vs h t) = t\<lparr>spawned := spawned t @ l\<rparr>"
      and F: "fst (locate_vs h t) = fst (locate_vs h s)"
    using locate_vs_repeat [OF assms, of h] by blast
  define v where "v = fst (locate_vs h s)"
  have ls: "locate_vs h s = (v, s\<lparr>spawned := spawned s @ l\<rparr>)"
    using L(1) by (simp add: v_def prod_eq_iff)
  have lt: "locate_vs h t = (v, t\<lparr>spawned := spawned t @ l\<rparr>)"
    using L(2) F by (simp add: v_def prod_eq_iff)
  define vc where "vc = Path_of True v @ [''VC'', ''Auxiliary'', ''Build'', ''vcvarsall.bat'']"
  define r where "r = h_capture h [[CHR 0x22] @ path_str vc @ [CHR 0x22] @ '' amd64 && set''] (environ s) (fs s)"
  consider (fast) "h_system h \<noteq> ''Windows'' \<or> (check_command h s ''cl'' \<and> environ s ''INCLUDE'' \<noteq> None)"
    | (none) "h_system h = ''Windows''" "\<not> (check_command h s ''cl'' \<and> environ s ''INCLUDE'' \<noteq> None)"
        "v = [] \<or> \<not> path_exists (fs s) vc"
    | (run) "h_system h = ''Windows''" "\<not> (check_command h s ''cl'' \<and> environ s ''INCLUDE'' \<noteq> None)"
        "v \<noteq> []" "path_exists (fs s) vc"
    by blast
  then show ?thesis
  proof cases
    case fast
    then have "setup_msvc_environment_b h s = (environ s, s)" "setup_msvc_environment_b h t = (environ s, t)"
      using assms by (auto simp: setup_msvc_environment_b_def check_command_def)
    then show ?thesis by (auto intro: exI [of _ "[]"])
  next
    case none
    then have "setup_msvc_environment_b h s = (environ s, s\<lparr>spawned := spawned s @ l\<rparr>)"
      "setup_msvc_environment_b h t = (environ s, t\<lparr>spawned := spawned t @ l\<rparr>)"
      using assms ls lt by (auto simp: setup_msvc_environment_b_def check_command_def vc_def)
    then show ?thesis by auto
  next
    case run
    have a: "snd (setup_msvc_environment_b h s) = s\<lparr>spawned := spawned s @ (l @ [(EnvScript, fst r)])\<rparr>"
      using run assms ls
      by (auto simp: setup_msvc_environment_b_def check_command_def vc_def r_def run_capture_def
          split: prod.splits)
    have b: "snd (setup_msvc_environment_b h t) = t\<lparr>spawned := spawned t @ (l @ [(EnvScript, fst r)])\<rparr>"
      using run assms lt
      by (auto simp: setup_msvc_environment_b_def check_command_def vc_def r_def run_capture_def
          split: prod.splits)
    have c: "fst (setup_msvc_environment_b h t) = fst (setup_msvc_environment_b h s)"
      using run assms ls lt
      by (auto simp: setup_msvc_environment_b_def check_command_def vc_def run_capture_def
          split: prod.splits)
    from a b c show ?thesis by blast
  qed
qed

lemma vs_paths_hd:
  "\<exists>rest. vs_paths = [''C:'', ''Program Files'', ''Microsoft Visual Studio'', ''2022'', ''Community''] # rest"
  by (simp add: vs_paths_def Path_of_def)

lemma vs_world_common: "common_vs_path (fs vs_world) = ''C:/Program Files/Microsoft Visual Studio/2022/Community''"
proof -
  obtain rest where r: "vs_paths = [''C:'', ''Program Files'', ''Microsoft Visual Studio'', ''2022'', ''Community''] # rest"
    using vs_paths_hd by blast
  have "path_exists (fs vs_world) [''C:'', ''Program Files'', ''Microsoft Visual Studio'', ''2022'', ''Community'']"
    by (simp add: path_exists_def vs_world_def)
  then show ?thesis by (simp add: common_vs_path_def r path_str_def)
qed

lemma vs_world_no_vswhere:
  assumes "fs w = fs vs_world" "environ w = Map.empty"
  shows "\<not> path_exists (fs w) (vswhere_path_of w)"
  using assms
  by (simp add: vswhere_path_of_def vswhere_exe_def program_files_x86_def program_files_def
      environ_get_def env_get_def Path_of_def path_exists_def vs_world_def)

lemma vs_world_locate:
  assumes "fs w = fs vs_world" "environ w = Map.empty"
  shows "locate_vs h w = (''C:/Program Files/Microsoft Visual Studio/2022/Community'', w)"
  using vs_world_no_vswhere [OF assms] assms(1) by (simp add: locate_vs_def vs_world_common)

lemma vs_path_parsed:
  "Path_of True ''C:/Program Files/Microsoft Visual Studio/2022/Community''
     = [''C:'', ''Program Files'', ''Microsoft Visual Studio'', ''2022'', ''Community'']"
  by (simp add: Path_of_def)

lemma vs_output_import:
  "import_environment vs_output Map.empty = [''PATH'' \<mapsto> ''vc'', ''INCLUDE'' \<mapsto> ''inc'']"
  by (simp add: vs_output_def import_environment_def splitlines_def import_line_def str_partition_def)

lemma vs_output_import_environ:
  "import_environ vs_output Map.empty = (Inr (), [''PATH'' \<mapsto> ''vc'', ''INCLUDE'' \<mapsto> ''inc''])"
  by (simp add: vs_output_def import_environ_def splitlines_def environ_setitem_def encodekey_def
      str_upper_def upper_char_def str_partition_def)

lemma vs_host_fields:
  "h_system vs_host = ''Windows''"
  "h_which vs_host = (\<lambda>e fsys cmd. cmd = ''cl'' \<and> e ''PATH'' = Some ''vc'')"
  "h_capture vs_host = (\<lambda>cmd e fsys. (0, vs_output, []))"
  by (simp_all add: vs_host_def example_host_def)

lemma vs_world_bootstrap_b:
  assumes "fs w = fs vs_world" "environ w = Map.empty"
  shows "setup_msvc_environment_b vs_host w
           = ([''PATH'' \<mapsto> ''vc'', ''INCLUDE'' \<mapsto> ''inc''], w\<lparr>spawned := spawned w @ [(EnvScript, 0)]\<rparr>)"
proof -
  have ex: "path_exists (fs w) [''C:'', ''Program Files'', ''Microsoft Visual Studio'', ''2022'',
              ''Community'', ''VC'', ''Auxiliary'', ''Build'', ''vcvarsall.bat'']"
    using assms(1) by (simp add: path_exists_def vs_world_def)
  show ?thesis
    using ex assms(2)
    by (simp add: setup_msvc_environment_b_def vs_world_locate [OF assms] vs_path_parsed
        vs_host_fields check_command_def run_capture_def vs_output_import)
qed


text \<open>
  C7, as stated, fails for \<^verbatim>\<open>setup_msvc_environment\<close> of \<^verbatim>\<open>build.py\<close>. On the sample
  host the first call imports the environment into the copy it returns (the compiler
  driver resolves there), but not into the process: the driver still does not resolve in
  the process environment, and the second call starts the environment script again.
\<close>

theorem bootstrap_twice_counterexample:
  "fst (setup_msvc_environment_b vs_host vs_world) ''PATH'' = Some ''vc''
   \<and> \<not> check_command vs_host (snd (setup_msvc_environment_b vs_host vs_world)) ''cl''
   \<and> spawned (snd (setup_msvc_environment_b vs_host vs_world)) = [(EnvScript, 0)]
   \<and> spawned (snd (setup_msvc_environment_b vs_host (snd (setup_msvc_environment_b vs_host vs_world))))
       = [(EnvScript, 0), (EnvScript, 0)]"
proof -
  have e: "environ vs_world = Map.empty" "spawned vs_world = []" by (simp_all add: vs_world_def)
  have 1: "setup_msvc_environment_b vs_host vs_world
           = ([''PATH'' \<mapsto> ''vc'', ''INCLUDE'' \<mapsto> ''inc''], vs_world\<lparr>spawned := [(EnvScript, 0)]\<rparr>)"
    using vs_world_bootstrap_b [of vs_world] e by simp
  have 2: "setup_msvc_environment_b vs_host (vs_world\<lparr>spawned := [(EnvScript, 0)]\<rparr>)
           = ([''PATH'' \<mapsto> ''vc'', ''INCLUDE'' \<mapsto> ''inc''],
              vs_world\<lparr>spawned := [(EnvScript, 0), (EnvScript, 0)]\<rparr>)"
    using vs_world_bootstrap_b [of "vs_world\<lparr>spawned := [(EnvScript, 0)]\<rparr>"] e by simp
  show ?thesis
    by (simp add: 1 2 check_command_def vs_host_fields e)
qed

text \<open>
  C7, amended. For \<^verbatim>\<open>CompilerDetector.setup_msvc_environment\<close> of \<^verbatim>\<open>configure.py\<close>:
  after a call that returns success, a second call under the same configuration returns
  success and changes nothing (no tool is started, the environment stays), and where
  the import is needed at all the required tool resolves in the process environment.
  \<^verbatim>\<open>setup_msvc_environment\<close> of \<^verbatim>\<open>build.py\<close> leaves the process environment as it
  is and returns the merged copy; a second call returns the same copy and starts the
  same tools again.
\<close>

theorem bootstrap_twice:
  "(setup_msvc_environment h s = (Inr True, s') \<longrightarrow>
      setup_msvc_environment h s' = (Inr True, s') \<and> (bootstrap_needed s \<longrightarrow> msvc_tools_visible h s'))
   \<and> environ (snd (setup_msvc_environment_b h w)) = environ w
   \<and> fst (setup_msvc_environment_b h (snd (setup_msvc_environment_b h w)))
       = fst (setup_msvc_environment_b h w)
   \<and> (\<exists>l. spawned (snd (setup_msvc_environment_b h w)) = spawned w @ l
          \<and> spawned (snd (setup_msvc_environment_b h (snd (setup_msvc_environment_b h w))))
              = spawned w @ l @ l)"
proof -
  obtain l where a: "snd (setup_msvc_environment_b h w) = w\<lparr>spawned := spawned w @ l\<rparr>"
    using setup_msvc_environment_b_repeat [of w w h] by auto
  let ?w1 = "w\<lparr>spawned := spawned w @ l\<rparr>"
  obtain k where b: "snd (setup_msvc_environment_b h w) = w\<lparr>spawned := spawned w @ k\<rparr>"
      "snd (setup_msvc_environment_b h ?w1) = ?w1\<lparr>spawned := spawned ?w1 @ k\<rparr>"
      and c: "fst (setup_msvc_environment_b h ?w1) = fst (setup_msvc_environment_b h w)"
    using setup_msvc_environment_b_repeat [of ?w1 w h] by auto
  have "spawned (w\<lparr>spawned := spawned w @ l\<rparr>) = spawned (w\<lparr>spawned := spawned w @ k\<rparr>)"
    using a b(1) by simp
  then have kl: "k = l" by simp
  have 1: "environ (snd (setup_msvc_environment_b h w)) = environ w" by (simp add: a)
  have 2: "fst (setup_msvc_environment_b h (snd (setup_msvc_environment_b h w)))
       = fst (setup_msvc_environment_b h w)" by (simp add: a c)
  have 3: "spawned (snd (setup_msvc_environment_b h w)) = spawned w @ l
          \<and> spawned (snd (setup_msvc_environment_b h (snd (setup_msvc_environment_b h w))))
              = spawned w @ l @ l"
    by (simp add: a b(2) kl)
  from setup_msvc_environment_idem [of h s s'] 1 2 3 show ?thesis by blast
qed

lemma vs_config_fields:
  "is_windows vs_config" "build_system vs_config = None" "compiler vs_config = Some ''msvc''"
  "fs vs_config = fs vs_world" "environ vs_config = Map.empty" "spawned vs_config = []"
  by (simp_all add: vs_config_def BuildConfig_init_def vs_host_fields vs_world_def)

lemma vs_config_bootstrap:
  "setup_msvc_environment vs_host vs_config
     = (Inr True, vs_config\<lparr>spawned := [(EnvScript, 0)],
                         environ := [''PATH'' \<mapsto> ''vc'', ''INCLUDE'' \<mapsto> ''inc'']\<rparr>)"
proof -
  have ex: "path_exists (fs vs_config) [''C:'', ''Program Files'', ''Microsoft Visual Studio'', ''2022'',
              ''Community'', ''VC'', ''Auxiliary'', ''Build'', ''vcvarsall.bat'']"
    by (simp add: vs_config_fields path_exists_def vs_world_def)
  show ?thesis
    using ex
    by (simp add: setup_msvc_environment_def vs_config_fields truthy_def msvc_tools_visible_def
        check_command_def vs_host_fields vs_world_locate [of vs_config, OF vs_config_fields(4,5)]
        vcvars_candidates_def vs_path_parsed run_capture_def vs_output_import_environ)
qed

theorem bootstrap_twice_witness:
  "setup_msvc_environment vs_host vs_config
     = (Inr True, vs_config\<lparr>spawned := [(EnvScript, 0)],
                         environ := [''PATH'' \<mapsto> ''vc'', ''INCLUDE'' \<mapsto> ''inc'']\<rparr>)
   \<and> setup_msvc_environment vs_host
        (vs_config\<lparr>spawned := [(EnvScript, 0)], environ := [''PATH'' \<mapsto> ''vc'', ''INCLUDE'' \<mapsto> ''inc'']\<rparr>)
     = (Inr True, vs_config\<lparr>spawned := [(EnvScript, 0)],
                         environ := [''PATH'' \<mapsto> ''vc'', ''INCLUDE'' \<mapsto> ''inc'']\<rparr>)
   \<and> msvc_tools_visible vs_host
        (vs_config\<lparr>spawned := [(EnvScript, 0)], environ := [''PATH'' \<mapsto> ''vc'', ''INCLUDE'' \<mapsto> ''inc'']\<rparr>)"
proof -
  have n: "bootstrap_needed vs_config"
    by (simp add: bootstrap_needed_def vs_config_fields truthy_def)
  from bootstrap_twice [of vs_host vs_config
      "vs_config\<lparr>spawned := [(EnvScript, 0)], environ := [''PATH'' \<mapsto> ''vc'', ''INCLUDE'' \<mapsto> ''inc'']\<rparr>"]
    vs_config_bootstrap n
  show ?thesis by simp
qed

subsection \<open>Interrupted prompts\<close>

lemma configured_world_dirs:
  "find_all_configured_build_dirs (fs configured_world) [''repo'']
     = Inr [[''repo'', ''build'', ''release'', ''linux'']]"
  by (simp add: find_all_configured_build_dirs_def configured_dirs_def iterdir_def is_dir_def
      path_exists_def configured_world_def)

lemma int_three: "python_int (default_choice ''3'') = Some 3"
  by (simp add: python_int_def default_choice_def str_strip_def is_space_def digit_val_def
      digits_int_def)

lemma select_reconfigure_eof:
  "select_loop [[''repo'', ''build'', ''release'', ''linux'']] [Line ''3''] = (Inl EOFError, [])"
  "select_loop [[''repo'', ''build'', ''release'', ''linux'']] [Line ''3'', CtrlC] = (Inl KeyboardInterrupt, [])"
  by (simp_all add: int_three)

text \<open>
  C3 does not hold of the code. With one configured build, the answer \<^verbatim>\<open>3\<close>
  (reconfigure) leads to the second prompt of \<^verbatim>\<open>select_build_dir_interactive\<close>; the
  end of the input or an interrupt there leaves the function, and \<^verbatim>\<open>main\<close> of
  \<^verbatim>\<open>build.py\<close>, as an exception. The prompt of \<^verbatim>\<open>select_compiler_interactive\<close> in
  \<^verbatim>\<open>configure.py\<close> is not guarded either.
\<close>

theorem unguarded_prompts:
  "fst (select_build_dir_interactive [''repo''] (configured_world\<lparr>stdin := [Line ''3'']\<rparr>))
     = Inl EOFError
   \<and> fst (select_build_dir_interactive [''repo''] (configured_world\<lparr>stdin := [Line ''3'', CtrlC]\<rparr>))
     = Inl KeyboardInterrupt
   \<and> fst (build_main (example_host ''Linux'') no_build_args (configured_world\<lparr>stdin := [Line ''3'', CtrlC]\<rparr>))
     = Inl KeyboardInterrupt
   \<and> fst (select_compiler_interactive both_host
            ((BuildConfig_init both_host empty_world)\<lparr>stdin := [CtrlC]\<rparr>))
     = Inl KeyboardInterrupt"
proof -
  have f: "\<And>i. fs (configured_world\<lparr>stdin := i\<rparr>) = fs configured_world" by simp
  have 1: "\<And>i. select_build_dir_interactive [''repo''] (configured_world\<lparr>stdin := i\<rparr>)
        = (fst (select_loop [[''repo'', ''build'', ''release'', ''linux'']] i),
           configured_world\<lparr>stdin := snd (select_loop [[''repo'', ''build'', ''release'', ''linux'']] i)\<rparr>)"
    by (simp add: select_build_dir_interactive_def configured_world_dirs)
  have a: "\<not> has_config_args no_build_args" "\<not> b_skip_configure no_build_args"
    "\<not> b_no_interactive no_build_args" "\<not> b_format no_build_args"
    by (simp_all add: has_config_args_def no_build_args_def truthy_def)
  have 2: "fst (build_main (example_host ''Linux'') no_build_args (configured_world\<lparr>stdin := [Line ''3'', CtrlC]\<rparr>))
     = Inl KeyboardInterrupt"
    by (simp add: build_main_def format_step_def a make_plan_def plan_with_prompt_def
        example_host_def path_parent_def 1 select_reconfigure_eof del: select_loop.simps)
  have 3: "fst (select_compiler_interactive both_host
            ((BuildConfig_init both_host empty_world)\<lparr>stdin := [CtrlC]\<rparr>))
     = Inl KeyboardInterrupt"
    by (simp add: select_compiler_interactive_def BuildConfig_init_def both_host_def example_host_def
        detect_clang_def detect_gcc_def check_command_def input_def empty_world_def)
  show ?thesis by (simp add: 1 2 3 select_reconfigure_eof del: select_loop.simps)
qed

end
